theory Spec2Isabelle
  imports Main "HOL-Library.Word" "HOL-Library.Char_ord" "HOL-Library.List_Lexorder"
begin

unbundle bit_operations_syntax

section \<open>Data model of \<^verbatim>\<open>data/database.go\<close>\<close>

text \<open>
  Go's \<^verbatim>\<open>uint64\<close> is a 64-bit word. A \<^verbatim>\<open>time.Time\<close> is an instant, counted from Go's
  zero time, so that the zero value of the type is \<open>0\<close>; a \<^verbatim>\<open>*time.Time\<close> is an
  \<open>option\<close>, \<open>None\<close> for \<^verbatim>\<open>nil\<close>. The three \<^verbatim>\<open>iota\<close> enumerations are Go \<^verbatim>\<open>int\<close>s.
\<close>

type_synonym uint64 = "64 word"
type_synonym time = int

type_synonym TaskKind = int

definition TaskEnum :: TaskKind where
  "TaskEnum = 0"

definition HabitEnum :: TaskKind where
  "HabitEnum = 1"

type_synonym Interval = int

definition Daily :: Interval where
  "Daily = 0"

definition Weekly :: Interval where
  "Weekly = 1"

definition Monthly :: Interval where
  "Monthly = 2"

type_synonym ActionKind = int

definition ActionProgress :: ActionKind where
  "ActionProgress = 0"

definition ActionDefer :: ActionKind where
  "ActionDefer = 1"

definition ActionDone :: ActionKind where
  "ActionDone = 2"

text \<open>
  The three structs share field names (\<^verbatim>\<open>Id\<close>, \<^verbatim>\<open>Kind\<close>, \<^verbatim>\<open>CreatedAt\<close>, ...), so every
  field carries the name of its struct: \<^verbatim>\<open>Task.Id\<close> is \<open>Task_Id\<close>.
\<close>

record Action =
  Action_Id :: string
  Action_Kind :: ActionKind
  Action_When :: "time option"
  Action_TaskId :: string

record Task =
  Task_CreatedAt :: time
  Task_UpdatedAt :: time
  Task_DeletedAt :: "time option"
  Task_Id :: string
  Task_Kind :: TaskKind
  Task_Title :: string
  Task_Done :: bool
  Task_UserId :: uint64
  Task_Actions :: "Action list"
  Task_StartDate :: "time option"
  Task_EndDate :: "time option"
  Task_Interval :: Interval
  Task_Frequency :: int

record User =
  User_Id :: uint64
  User_CreatedAt :: time
  User_UpdatedAt :: time
  User_DeletedAt :: "time option"
  User_Username :: string
  User_HashedPassword :: string
  User_Tasks :: "Task list"

text \<open>
  Go errors are values. \<open>ErrRecordNotFound\<close> is \<^verbatim>\<open>gorm.ErrRecordNotFound\<close>, \<open>Errorf\<close> is
  an error made by \<^verbatim>\<open>fmt.Errorf\<close> with its formatted message, \<open>ErrUniqueViolation\<close> is
  the store refusing a row for a primary key or unique column that is taken, and
  \<open>ValidationError\<close> is \<^verbatim>\<open>jwt.ValidationError{Inner, Errors, text}\<close> with its bit field.
  \<open>ErrOther\<close> is any other error, by its message.
\<close>

datatype error =
    ErrRecordNotFound
  | Errorf string
  | ErrUniqueViolation string
  | ValidationError "error option" "32 word" string
  | ErrSignatureInvalid
  | ErrSegment
  | ErrJson
  | ErrOther string

fun Error :: "error \<Rightarrow> string" where
  "Error ErrRecordNotFound = ''record not found''"
| "Error (Errorf m) = m"
| "Error (ErrUniqueViolation c) = ''pq: duplicate key value violates unique constraint '' @ c"
| "Error (ValidationError (Some e) _ _) = Error e"
| "Error (ValidationError None _ t) = (if t \<noteq> [] then t else ''token is invalid'')"
| "Error ErrSignatureInvalid = ''signature is invalid''"
| "Error ErrSegment = ''illegal base64 data''"
| "Error ErrJson = ''invalid character''"
| "Error (ErrOther m) = m"

section \<open>The store behind \<^verbatim>\<open>gormDB\<close>\<close>

text \<open>
  \<^verbatim>\<open>gormDB\<close> wraps a \<^verbatim>\<open>*gorm.DB\<close> handle; what the handle reaches is the relational
  store, three tables created by \<^verbatim>\<open>AutoMigrate(&Task{}, &User{}, &Action{})\<close>. A table
  is the list of its rows in insertion order. A row of \<open>tasks\<close> has no \<^verbatim>\<open>Actions\<close>
  column (the field is an association, filled by \<^verbatim>\<open>Preload\<close>), so stored rows keep
  \<open>Task_Actions = []\<close>. \<open>users_id_seq\<close> is the sequence behind the numeric primary
  key of \<open>users\<close>.
\<close>

record gormDB =
  tasks :: "Task list"
  users :: "User list"
  actions :: "Action list"
  users_id_seq :: uint64

text \<open>A value in a query condition: the Go value bound to a \<^verbatim>\<open>?\<close> placeholder.\<close>

datatype sql_value =
    VString string
  | VUint uint64
  | VInt int
  | VBool bool
  | VTime time
  | VNull

text \<open>
  gorm's \<^verbatim>\<open>isBlank\<close>: the zero value of the field's type (\<^verbatim>\<open>""\<close>, \<^verbatim>\<open>0\<close>, \<^verbatim>\<open>false\<close>, the
  zero time, a \<^verbatim>\<open>nil\<close> pointer).
\<close>

fun isBlank :: "sql_value \<Rightarrow> bool" where
  "isBlank (VString s) = (s = [])"
| "isBlank (VUint n) = (n = 0)"
| "isBlank (VInt i) = (i = 0)"
| "isBlank (VBool b) = (\<not> b)"
| "isBlank (VTime t) = (t = 0)"
| "isBlank VNull = True"

definition ptr_value :: "time option \<Rightarrow> sql_value" where
  "ptr_value p = (case p of None \<Rightarrow> VNull | Some t \<Rightarrow> VTime t)"

text \<open>The columns of a \<open>tasks\<close> row, in the order of the struct's fields.\<close>

definition Task_fields :: "Task \<Rightarrow> (string \<times> sql_value) list" where
  "Task_fields t =
     [(''created_at'', VTime (Task_CreatedAt t)),
      (''updated_at'', VTime (Task_UpdatedAt t)),
      (''deleted_at'', ptr_value (Task_DeletedAt t)),
      (''id'', VString (Task_Id t)),
      (''kind'', VInt (Task_Kind t)),
      (''title'', VString (Task_Title t)),
      (''done'', VBool (Task_Done t)),
      (''user_id'', VUint (Task_UserId t)),
      (''start_date'', ptr_value (Task_StartDate t)),
      (''end_date'', ptr_value (Task_EndDate t)),
      (''interval'', VInt (Task_Interval t)),
      (''frequency'', VInt (Task_Frequency t))]"

text \<open>
  A row satisfies a list of conditions \<^verbatim>\<open>(column = ?)\<close> joined by \<^verbatim>\<open>AND\<close> when each
  named column holds the bound value.
\<close>

definition row_matches :: "(string \<times> sql_value) list \<Rightarrow> Task \<Rightarrow> bool" where
  "row_matches conds t = list_all (\<lambda>(c, v). map_of (Task_fields t) c = Some v) conds"

text \<open>
  \<^verbatim>\<open>Where(map[string]interface{}{...})\<close>: every key of the map is a condition, whatever
  its value. \<^verbatim>\<open>Where(&struct)\<close>: gorm builds a condition for each field of the struct
  that is not blank, and skips the blank ones
  (\<^verbatim>\<open>if !field.IsIgnored && !field.IsBlank\<close> in its \<^verbatim>\<open>buildCondition\<close>).
\<close>

definition struct_conditions :: "Task \<Rightarrow> (string \<times> sql_value) list" where
  "struct_conditions t = filter (\<lambda>(c, v). \<not> isBlank v) (Task_fields t)"

text \<open>
  \<^verbatim>\<open>Task\<close> has a \<^verbatim>\<open>DeletedAt\<close> field, so gorm scopes every query on \<open>tasks\<close> with
  \<^verbatim>\<open>deleted_at IS NULL\<close>: a row whose \<open>Task_DeletedAt\<close> is set is invisible.
\<close>

definition scoped_tasks :: "gormDB \<Rightarrow> (string \<times> sql_value) list \<Rightarrow> Task list" where
  "scoped_tasks db conds =
     filter (\<lambda>t. Task_DeletedAt t = None \<and> row_matches conds t) (tasks db)"

text \<open>\<^verbatim>\<open>Preload("Actions")\<close>: the actions whose \<^verbatim>\<open>task_id\<close> is the task's id.\<close>

definition Preload_Actions :: "gormDB \<Rightarrow> Task \<Rightarrow> Task" where
  "Preload_Actions db t =
     t\<lparr>Task_Actions := filter (\<lambda>a. Action_TaskId a = Task_Id t) (actions db)\<rparr>"

text \<open>
  \<^verbatim>\<open>First(&task)\<close>: the first matching row in the order of the primary key, or
  \<^verbatim>\<open>ErrRecordNotFound\<close> when no row matches.
\<close>

definition First_Task :: "gormDB \<Rightarrow> (string \<times> sql_value) list \<Rightarrow> error + Task" where
  "First_Task db conds =
     (case sort_key Task_Id (scoped_tasks db conds) of
        [] \<Rightarrow> Inl ErrRecordNotFound
      | t # _ \<Rightarrow> Inr (Preload_Actions db t))"

text \<open>\<^verbatim>\<open>Find(&tasks)\<close>: every matching row.\<close>

definition Find_Tasks :: "gormDB \<Rightarrow> (string \<times> sql_value) list \<Rightarrow> Task list" where
  "Find_Tasks db conds = map (Preload_Actions db) (scoped_tasks db conds)"

text \<open>
  \<^verbatim>\<open>Create(task)\<close>: gorm stamps \<^verbatim>\<open>CreatedAt\<close> and \<^verbatim>\<open>UpdatedAt\<close> with the current time when
  they are blank; a blank \<^verbatim>\<open>Id\<close> takes the column's default \<^verbatim>\<open>uuid_generate_v4()\<close>
  (\<open>uuid\<close>, chosen by the store); the store refuses a primary key that some row of the
  table already has. The result is the error and the struct as gorm leaves it.
\<close>

definition Create_Task :: "time \<Rightarrow> string \<Rightarrow> gormDB \<Rightarrow> Task \<Rightarrow> (Task \<times> error option) \<times> gormDB" where
  "Create_Task now uuid db task =
     (let t1 = task\<lparr>Task_CreatedAt := (if Task_CreatedAt task = 0 then now else Task_CreatedAt task),
                    Task_UpdatedAt := (if Task_UpdatedAt task = 0 then now else Task_UpdatedAt task)\<rparr>;
          t2 = (if Task_Id t1 = [] then t1\<lparr>Task_Id := uuid\<rparr> else t1)
      in if Task_Id t2 \<in> set (map Task_Id (tasks db))
         then ((t1, Some (ErrUniqueViolation ''tasks_pkey'')), db)
         else ((t2, None), db\<lparr>tasks := tasks db @ [t2\<lparr>Task_Actions := []\<rparr>]\<rparr>))"

definition Create_Action :: "string \<Rightarrow> gormDB \<Rightarrow> Action \<Rightarrow> (Action \<times> error option) \<times> gormDB" where
  "Create_Action uuid db action =
     (let a = (if Action_Id action = [] then action\<lparr>Action_Id := uuid\<rparr> else action)
      in if Action_Id a \<in> set (map Action_Id (actions db))
         then ((action, Some (ErrUniqueViolation ''actions_pkey'')), db)
         else ((a, None), db\<lparr>actions := actions db @ [a]\<rparr>))"

text \<open>
  \<^verbatim>\<open>Create(user)\<close>: a blank \<^verbatim>\<open>Id\<close> takes the next value of the sequence; \<^verbatim>\<open>username\<close>
  is declared \<^verbatim>\<open>unique\<close>.
\<close>

definition Create_User :: "time \<Rightarrow> gormDB \<Rightarrow> User \<Rightarrow> (User \<times> error option) \<times> gormDB" where
  "Create_User now db user =
     (let u1 = user\<lparr>User_CreatedAt := (if User_CreatedAt user = 0 then now else User_CreatedAt user),
                    User_UpdatedAt := (if User_UpdatedAt user = 0 then now else User_UpdatedAt user)\<rparr>;
          u2 = (if User_Id u1 = 0 then u1\<lparr>User_Id := users_id_seq db + 1\<rparr> else u1);
          db1 = (if User_Id u1 = 0 then db\<lparr>users_id_seq := users_id_seq db + 1\<rparr> else db)
      in if User_Id u2 \<in> set (map User_Id (users db))
         then ((u1, Some (ErrUniqueViolation ''users_pkey'')), db1)
         else if User_Username u2 \<in> set (map User_Username (users db))
         then ((u1, Some (ErrUniqueViolation ''users_username_key'')), db1)
         else ((u2, None), db1\<lparr>users := users db @ [u2\<lparr>User_Tasks := []\<rparr>]\<rparr>))"

text \<open>
  \<^verbatim>\<open>db.Where(conds).Delete(&task)\<close> on a model with \<^verbatim>\<open>DeletedAt\<close>: gorm does not remove
  rows but runs \<^verbatim>\<open>UPDATE tasks SET deleted_at = now WHERE deleted_at IS NULL AND ...\<close>,
  where the conditions are the primary key of the value, when it is not blank, and the
  \<^verbatim>\<open>Where\<close> conditions. \<^verbatim>\<open>RowsAffected\<close> counts the rows updated.
\<close>

definition Delete_Task ::
  "time \<Rightarrow> gormDB \<Rightarrow> (string \<times> sql_value) list \<Rightarrow> Task \<Rightarrow> (error option \<times> int) \<times> gormDB" where
  "Delete_Task now db conds val =
     (let cs = (if Task_Id val = [] then [] else [(''id'', VString (Task_Id val))]) @ conds;
          hit = (\<lambda>t. Task_DeletedAt t = None \<and> row_matches cs t)
      in ((None, int (length (filter hit (tasks db)))),
          db\<lparr>tasks := map (\<lambda>t. if hit t then t\<lparr>Task_DeletedAt := Some now\<rparr> else t) (tasks db)\<rparr>))"

section \<open>The operations of \<^verbatim>\<open>data/database.go\<close>\<close>

text \<open>
  \<^verbatim>\<open>func (db gormDB) Close() error { return db.Close() }\<close>. \<^verbatim>\<open>gormDB\<close> embeds
  \<^verbatim>\<open>*gorm.DB\<close>, and declares \<^verbatim>\<open>Close\<close> itself: by Go's selector rule \<^verbatim>\<open>db.Close\<close> is
  the method at the shallowest depth, which is this one and not the promoted
  \<^verbatim>\<open>(*gorm.DB).Close\<close>. The body calls the function being defined. A call that returns
  \<open>r\<close> is \<open>Some r\<close>; a call that never returns is \<open>None\<close>.
\<close>

partial_function (option) Close :: "gormDB \<Rightarrow> error option option" where
  "Close db = Close db"

text \<open>Formatting verbs of \<^verbatim>\<open>fmt.Errorf\<close>: \<^verbatim>\<open>%d\<close> prints a number in decimal.\<close>

definition digit_char :: "nat \<Rightarrow> char" where
  "digit_char d = char_of (48 + d)"

function decimal :: "nat \<Rightarrow> string" where
  "decimal n = (if n < 10 then [digit_char n] else decimal (n div 10) @ [digit_char (n mod 10)])"
  by pat_completeness auto
termination
  by (relation "measure (\<lambda>n. n)") auto

declare decimal.simps [simp del]

definition format_d :: "uint64 \<Rightarrow> string" where
  "format_d n = decimal (unat n)"

definition GetTask ::
  "gormDB \<Rightarrow> string \<Rightarrow> uint64 \<Rightarrow> TaskKind option \<Rightarrow> Task option \<times> error option" where
  "GetTask db taskId userId kind =
     (let whereFields = [(''id'', VString taskId), (''user_id'', VUint userId)];
          whereFields = (case kind of
                           Some k \<Rightarrow> whereFields @ [(''kind'', VInt k)]
                         | None \<Rightarrow> whereFields)
      in case First_Task db whereFields of
           Inl err \<Rightarrow> (None, Some err)
         | Inr task \<Rightarrow> (Some task, None))"

definition GetTasks :: "gormDB \<Rightarrow> uint64 \<Rightarrow> TaskKind option \<Rightarrow> Task list \<times> error option" where
  "GetTasks db userId kind =
     (let whereFields = [(''user_id'', VUint userId)];
          whereFields = (case kind of
                           Some k \<Rightarrow> whereFields @ [(''kind'', VInt k)]
                         | None \<Rightarrow> whereFields)
      in (Find_Tasks db whereFields, None))"

text \<open>
  \<^verbatim>\<open>AddTask\<close> writes through its pointer argument, so the model returns the task as the
  caller sees it afterwards, next to the error and the store.
\<close>

definition AddTask ::
  "time \<Rightarrow> string \<Rightarrow> gormDB \<Rightarrow> Task \<Rightarrow> uint64 \<Rightarrow> (Task \<times> error option) \<times> gormDB" where
  "AddTask now uuid db task userId =
     (let task = task\<lparr>Task_UserId := userId\<rparr>
      in Create_Task now uuid db task)"

definition zero_Task :: Task where
  "zero_Task = \<lparr>Task_CreatedAt = 0, Task_UpdatedAt = 0, Task_DeletedAt = None, Task_Id = [],
     Task_Kind = 0, Task_Title = [], Task_Done = False, Task_UserId = 0, Task_Actions = [],
     Task_StartDate = None, Task_EndDate = None, Task_Interval = 0, Task_Frequency = 0\<rparr>"

definition DeleteTask ::
  "time \<Rightarrow> gormDB \<Rightarrow> string \<Rightarrow> uint64 \<Rightarrow> (bool \<times> error option) \<times> gormDB" where
  "DeleteTask now db taskId userId =
     (let task = zero_Task\<lparr>Task_Id := taskId, Task_UserId := userId\<rparr>;
          ((err, RowsAffected), db') = Delete_Task now db (struct_conditions task) task
      in if err \<noteq> None then ((False, err), db')
         else ((RowsAffected > 0, None), db'))"

definition AddAction ::
  "string \<Rightarrow> gormDB \<Rightarrow> Action \<Rightarrow> uint64 \<Rightarrow> (Action \<times> error option) \<times> gormDB" where
  "AddAction uuid db action userId =
     (let (task, err) = GetTask db (Action_TaskId action) userId None
      in if task = None
         then ((action, Some (Errorf (''Task '' @ Action_TaskId action @
                                       '' does not exist for user '' @ format_d userId))), db)
         else if err \<noteq> None then ((action, err), db)
         else Create_Action uuid db action)"

definition zero_User :: User where
  "zero_User = \<lparr>User_Id = 0, User_CreatedAt = 0, User_UpdatedAt = 0, User_DeletedAt = None,
     User_Username = [], User_HashedPassword = [], User_Tasks = []\<rparr>"

text \<open>
  \<^verbatim>\<open>bcrypt.GenerateFromPassword\<close> belongs to \<^verbatim>\<open>golang.org/x/crypto\<close>, and the constant
  \<^verbatim>\<open>bcryptCost\<close> is declared in a file of the package that is not among the sources:
  both are parameters.
\<close>

definition CreateUser ::
  "(string \<Rightarrow> int \<Rightarrow> string \<times> error option) \<Rightarrow> int \<Rightarrow> time \<Rightarrow> gormDB \<Rightarrow> string \<Rightarrow> string
     \<Rightarrow> (User option \<times> error option) \<times> gormDB" where
  "CreateUser GenerateFromPassword bcryptCost now db username password =
     (let (hashedPassword, err) = GenerateFromPassword password bcryptCost
      in if err \<noteq> None then ((None, err), db)
         else let user = zero_User\<lparr>User_Username := username,
                                    User_HashedPassword := hashedPassword\<rparr>;
                  ((user, err), db') = Create_User now db user
              in if err \<noteq> None then ((None, err), db')
                 else ((Some user, None), db'))"

section \<open>JSON web tokens: what \<^verbatim>\<open>data/auth.go\<close> calls in \<^verbatim>\<open>jwt-go\<close>\<close>

text \<open>
  \<^verbatim>\<open>DuetClaims\<close> embeds \<^verbatim>\<open>jwt.StandardClaims\<close> and adds nothing. The field \<^verbatim>\<open>Id\<close> of the
  claims is \<open>Id_jti\<close> here (\<open>Id\<close> is the identity relation of HOL). The numeric claims
  are seconds since the epoch.
\<close>

record StandardClaims =
  Audience :: string
  ExpiresAt :: int
  Id_jti :: string
  IssuedAt :: int
  Issuer :: string
  NotBefore :: int
  Subject :: string

type_synonym DuetClaims = StandardClaims

definition zero_Claims :: DuetClaims where
  "zero_Claims = \<lparr>Audience = [], ExpiresAt = 0, Id_jti = [], IssuedAt = 0, Issuer = [],
     NotBefore = 0, Subject = []\<rparr>"

text \<open>
  The signing methods that the library registers, by family and hash, and the name each
  one answers to \<^verbatim>\<open>Alg()\<close>.
\<close>

datatype family = HMAC | RSA | RSAPSS | ECDSA

datatype hash = SHA256 | SHA384 | SHA512

datatype SigningMethod = Method family hash | SigningMethodNone

definition SigningMethodHS256 :: SigningMethod where
  "SigningMethodHS256 = Method HMAC SHA256"

fun family_prefix :: "family \<Rightarrow> string" where
  "family_prefix HMAC = ''HS''"
| "family_prefix RSA = ''RS''"
| "family_prefix RSAPSS = ''PS''"
| "family_prefix ECDSA = ''ES''"

fun hash_bits :: "hash \<Rightarrow> string" where
  "hash_bits SHA256 = ''256''"
| "hash_bits SHA384 = ''384''"
| "hash_bits SHA512 = ''512''"

fun Alg :: "SigningMethod \<Rightarrow> string" where
  "Alg (Method f h) = family_prefix f @ hash_bits h"
| "Alg SigningMethodNone = ''none''"

definition signingMethods :: "SigningMethod list" where
  "signingMethods =
     [Method f h. f \<leftarrow> [HMAC, RSA, RSAPSS, ECDSA], h \<leftarrow> [SHA256, SHA384, SHA512]]
     @ [SigningMethodNone]"

definition GetSigningMethod :: "string \<Rightarrow> SigningMethod option" where
  "GetSigningMethod alg = find (\<lambda>m. Alg m = alg) signingMethods"

text \<open>
  The header of a token is a JSON object; the model keeps its string-valued members
  (only \<^verbatim>\<open>Header["alg"].(string)\<close> is ever read).
\<close>

type_synonym header = "(string \<times> string) list"

record Token =
  Raw :: string
  Method_of :: "SigningMethod option"
  Header :: header
  Claims :: DuetClaims
  Signature :: string
  Valid :: bool

text \<open>
  What the library takes from Go's standard library is a parameter of the model: the
  base64url coding of a segment, the JSON coding of the header and of the claims, and
  the keyed hash. A decoder answers \<open>None\<close> where the Go function returns an error.
  \<open>Sign_other\<close> and \<open>Verify_other\<close> are the signing methods outside the HMAC family,
  called with a \<^verbatim>\<open>[]byte\<close> key.
\<close>

record stdlib =
  EncodeSegment :: "string \<Rightarrow> string"
  DecodeSegment :: "string \<Rightarrow> string option"
  Marshal_Header :: "header \<Rightarrow> string"
  Unmarshal_Header :: "string \<Rightarrow> header option"
  Marshal_Claims :: "DuetClaims \<Rightarrow> string"
  Unmarshal_Claims :: "string \<Rightarrow> DuetClaims option"
  hmac_Sum :: "hash \<Rightarrow> string \<Rightarrow> string \<Rightarrow> string"
  Sign_other :: "SigningMethod \<Rightarrow> string \<Rightarrow> string \<Rightarrow> string \<times> error option"
  Verify_other :: "SigningMethod \<Rightarrow> string \<Rightarrow> string \<Rightarrow> string \<Rightarrow> error option"

text \<open>\<^verbatim>\<open>strings.Split(s, sep)\<close> for a separator of one byte, and \<^verbatim>\<open>strings.Join\<close>.\<close>

fun Split :: "string \<Rightarrow> char \<Rightarrow> string list" where
  "Split [] sep = [] # []"
| "Split (c # cs) sep =
     (if c = sep then [] # Split cs sep
      else (case Split cs sep of
              [] \<Rightarrow> [c] # []
            | p # ps \<Rightarrow> (c # p) # ps))"

fun Join :: "string list \<Rightarrow> string \<Rightarrow> string" where
  "Join [] sep = []"
| "Join [x] sep = x"
| "Join (x # y # ys) sep = x @ sep @ Join (y # ys) sep"

text \<open>The bits of \<^verbatim>\<open>ValidationError.Errors\<close>.\<close>

definition ValidationErrorMalformed :: "32 word" where
  "ValidationErrorMalformed = push_bit 0 1"

definition ValidationErrorUnverifiable :: "32 word" where
  "ValidationErrorUnverifiable = push_bit 1 1"

definition ValidationErrorSignatureInvalid :: "32 word" where
  "ValidationErrorSignatureInvalid = push_bit 2 1"

definition ValidationErrorExpired :: "32 word" where
  "ValidationErrorExpired = push_bit 4 1"

definition ValidationErrorIssuedAt :: "32 word" where
  "ValidationErrorIssuedAt = push_bit 5 1"

definition ValidationErrorNotValidYet :: "32 word" where
  "ValidationErrorNotValidYet = push_bit 7 1"

definition ValidationErrorClaimsInvalid :: "32 word" where
  "ValidationErrorClaimsInvalid = push_bit 9 1"

text \<open>
  \<^verbatim>\<open>StandardClaims.Valid\<close>: a time claim that is \<open>0\<close> is absent, and an absent claim
  passes (none is required); \<open>now\<close> is \<^verbatim>\<open>TimeFunc().Unix()\<close>.
\<close>

definition verifyExp :: "int \<Rightarrow> int \<Rightarrow> bool \<Rightarrow> bool" where
  "verifyExp exp now required = (if exp = 0 then \<not> required else now \<le> exp)"

definition verifyIat :: "int \<Rightarrow> int \<Rightarrow> bool \<Rightarrow> bool" where
  "verifyIat iat now required = (if iat = 0 then \<not> required else now \<ge> iat)"

definition verifyNbf :: "int \<Rightarrow> int \<Rightarrow> bool \<Rightarrow> bool" where
  "verifyNbf nbf now required = (if nbf = 0 then \<not> required else now \<ge> nbf)"

definition Claims_Valid :: "DuetClaims \<Rightarrow> int \<Rightarrow> error option" where
  "Claims_Valid c now =
     (let vErr = (None, 0);
          vErr = (if \<not> verifyExp (ExpiresAt c) now False
                  then (Some (Errorf ''token is expired''), snd vErr OR ValidationErrorExpired)
                  else vErr);
          vErr = (if \<not> verifyIat (IssuedAt c) now False
                  then (Some (Errorf ''Token used before issued''),
                        snd vErr OR ValidationErrorIssuedAt)
                  else vErr);
          vErr = (if \<not> verifyNbf (NotBefore c) now False
                  then (Some (Errorf ''token is not valid yet''),
                        snd vErr OR ValidationErrorNotValidYet)
                  else vErr)
      in if snd vErr = 0 then None else Some (ValidationError (fst vErr) (snd vErr) []))"

text \<open>
  \<^verbatim>\<open>Sign\<close> and \<^verbatim>\<open>Verify\<close> of a signing method, for a key that is a \<^verbatim>\<open>[]byte\<close>. The HMAC
  family signs with the encoded keyed hash of the signing string, and verifies by
  decoding the signature and comparing it with the keyed hash it computes itself.
\<close>

definition Sign :: "stdlib \<Rightarrow> SigningMethod \<Rightarrow> string \<Rightarrow> string \<Rightarrow> string \<times> error option" where
  "Sign lib m signingString key =
     (case m of
        Method HMAC h \<Rightarrow> (EncodeSegment lib (hmac_Sum lib h key signingString), None)
      | _ \<Rightarrow> Sign_other lib m signingString key)"

definition Verify :: "stdlib \<Rightarrow> SigningMethod \<Rightarrow> string \<Rightarrow> string \<Rightarrow> string \<Rightarrow> error option" where
  "Verify lib m signingString signature key =
     (case m of
        Method HMAC h \<Rightarrow>
          (case DecodeSegment lib signature of
             None \<Rightarrow> Some ErrSegment
           | Some sig \<Rightarrow>
               if sig \<noteq> hmac_Sum lib h key signingString then Some ErrSignatureInvalid
               else None)
      | _ \<Rightarrow> Verify_other lib m signingString signature key)"

text \<open>\<^verbatim>\<open>jwt.NewWithClaims\<close>, \<^verbatim>\<open>Token.SigningString\<close> and \<^verbatim>\<open>Token.SignedString\<close>.\<close>

definition NewWithClaims :: "SigningMethod \<Rightarrow> DuetClaims \<Rightarrow> Token" where
  "NewWithClaims m c =
     \<lparr>Raw = [], Method_of = Some m, Header = [(''typ'', ''JWT''), (''alg'', Alg m)],
      Claims = c, Signature = [], Valid = False\<rparr>"

definition SigningString :: "stdlib \<Rightarrow> Token \<Rightarrow> string" where
  "SigningString lib t =
     Join [EncodeSegment lib (Marshal_Header lib (Header t)),
           EncodeSegment lib (Marshal_Claims lib (Claims t))] ''.''"

definition SignedString :: "stdlib \<Rightarrow> Token \<Rightarrow> string \<Rightarrow> string \<times> error option" where
  "SignedString lib t key =
     (let sstr = SigningString lib t
      in case Method_of t of
           None \<Rightarrow> ([], Some (ErrOther ''nil signing method''))
         | Some m \<Rightarrow>
             (let (sig, err) = Sign lib m sstr key
              in if err \<noteq> None then ([], err)
                 else (Join [sstr, sig] ''.'', None)))"

text \<open>
  \<^verbatim>\<open>jwt.ParseWithClaims(tokenString, &DuetClaims{}, keyFunc)\<close>, in the order of the
  library: three segments, the header, the claims, the signing method named by the
  header, the key function, the validity of the claims, the signature. The token is
  \<^verbatim>\<open>nil\<close> only when the segments cannot be counted to three.
\<close>

definition ParseWithClaims ::
  "stdlib \<Rightarrow> int \<Rightarrow> string \<Rightarrow> (Token \<Rightarrow> string \<times> error option) \<Rightarrow> Token option \<times> error option" where
  "ParseWithClaims lib now tokenString keyFunc =
     (case Split tokenString (CHR ''.'') of
        [p0, p1, p2] \<Rightarrow>
          (let token = \<lparr>Raw = tokenString, Method_of = None, Header = [], Claims = zero_Claims,
                        Signature = [], Valid = False\<rparr>
           in case DecodeSegment lib p0 of
                None \<Rightarrow> (Some token, Some (ValidationError (Some ErrSegment) ValidationErrorMalformed []))
              | Some headerBytes \<Rightarrow>
           (case Unmarshal_Header lib headerBytes of
                None \<Rightarrow> (Some token, Some (ValidationError (Some ErrJson) ValidationErrorMalformed []))
              | Some hdr \<Rightarrow>
           (let token = token\<lparr>Header := hdr\<rparr>
            in case DecodeSegment lib p1 of
                None \<Rightarrow> (Some token, Some (ValidationError (Some ErrSegment) ValidationErrorMalformed []))
              | Some claimBytes \<Rightarrow>
           (case Unmarshal_Claims lib claimBytes of
                None \<Rightarrow> (Some token, Some (ValidationError (Some ErrJson) ValidationErrorMalformed []))
              | Some c \<Rightarrow>
           (let token = token\<lparr>Claims := c\<rparr>
            in case map_of (Header token) ''alg'' of
                None \<Rightarrow> (Some token, Some (ValidationError None ValidationErrorUnverifiable
                                            ''signing method (alg) is unspecified.''))
              | Some method \<Rightarrow>
           (case GetSigningMethod method of
                None \<Rightarrow> (Some token, Some (ValidationError None ValidationErrorUnverifiable
                                            ''signing method (alg) is unavailable.''))
              | Some m \<Rightarrow>
           (let token = token\<lparr>Method_of := Some m\<rparr>;
                (key, err) = keyFunc token
            in if err \<noteq> None
               then (Some token, Some (ValidationError err ValidationErrorUnverifiable []))
               else
           (let vErr = (case Claims_Valid (Claims token) now of
                          None \<Rightarrow> (None, 0)
                        | Some (ValidationError inner errors text) \<Rightarrow> (inner, errors)
                        | Some e \<Rightarrow> (Some e, ValidationErrorClaimsInvalid));
                token = token\<lparr>Signature := p2\<rparr>;
                vErr = (case Verify lib m (Join [p0, p1] ''.'') (Signature token) key of
                          Some e \<Rightarrow> (Some e, snd vErr OR ValidationErrorSignatureInvalid)
                        | None \<Rightarrow> vErr)
            in if snd vErr = 0 then (Some (token\<lparr>Valid := True\<rparr>), None)
               else (Some token, Some (ValidationError (fst vErr) (snd vErr) []))))))))))
      | _ \<Rightarrow> (None, Some (ValidationError None ValidationErrorMalformed
                            ''token contains an invalid number of segments'')))"

section \<open>\<^verbatim>\<open>data/auth.go\<close>: issuing and verifying tokens\<close>

definition tokenSecret :: string where
  "tokenSecret = ''someSecret''"

record usernameAndPassword =
  Username :: string
  Password :: string

record Request =
  Request_Header :: "(string \<times> string) list"
  Request_Body :: string

text \<open>
  A request context: its deadline, if any, and the values attached to it, the latest
  first. \<^verbatim>\<open>data.UserIdKey\<close> is declared in a file that is not among the sources, so the
  type of keys is a parameter.
\<close>

record 'k Context =
  deadline :: "time option"
  values_of :: "('k \<times> uint64) list"

definition Background :: "'k Context" where
  "Background = \<lparr>deadline = None, values_of = []\<rparr>"

definition Millisecond :: int where
  "Millisecond = 1000000"

definition WithTimeout :: "'k Context \<Rightarrow> time \<Rightarrow> int \<Rightarrow> 'k Context" where
  "WithTimeout parent now timeout =
     parent\<lparr>deadline := (case deadline parent of
                            None \<Rightarrow> Some (now + timeout)
                          | Some d \<Rightarrow> Some (min d (now + timeout)))\<rparr>"

definition WithValue :: "'k Context \<Rightarrow> 'k \<Rightarrow> uint64 \<Rightarrow> 'k Context" where
  "WithValue ctx k v = ctx\<lparr>values_of := (k, v) # values_of ctx\<rparr>"

definition Value_of :: "'k Context \<Rightarrow> 'k \<Rightarrow> uint64 option" where
  "Value_of ctx k = map_of (values_of ctx) k"

text \<open>
  What a handler does to the outside is the list of its effects, in order: a line
  of the log, an error response (\<^verbatim>\<open>rest.Error\<close>, \<^verbatim>\<open>http.Error\<close>) with its status, a JSON
  body, the call of the GraphQL handler with the context it is given and the time of
  the call, and the cancelling of the context by the deferred \<^verbatim>\<open>cancel()\<close>.
\<close>

datatype 'k event =
    Log string
  | rest_Error string nat
  | WriteJson "(string \<times> string) list"
  | http_Error string nat
  | ContextHandler "'k Context" Request time
  | cancel

definition StatusUnauthorized :: nat where
  "StatusUnauthorized = 401"

definition StatusInternalServerError :: nat where
  "StatusInternalServerError = 500"

text \<open>
  \<^verbatim>\<open>ServeLogin\<close>. \<^verbatim>\<open>r.DecodeJsonPayload\<close> belongs to the REST framework and is a
  parameter: it gives the decoded payload and the error. Between decoding and issuing
  the token the source has the comment \<^verbatim>\<open>// TODO verify password\<close> and a log line, and
  nothing else: the function reads neither the store nor the password.
\<close>

definition ServeLogin ::
  "stdlib \<Rightarrow> (Request \<Rightarrow> usernameAndPassword \<times> error option) \<Rightarrow> Request \<Rightarrow> 'k event list" where
  "ServeLogin lib DecodeJsonPayload r =
     (let (userAndPass, err) = DecodeJsonPayload r
      in case err of
           Some e \<Rightarrow> [rest_Error (Error e) StatusInternalServerError]
         | None \<Rightarrow>
             (let logged = Log (''Username: '' @ Username userAndPass @ '', Password: '' @
                                Password userAndPass @ [CHR 0x0A]);
                  token = NewWithClaims SigningMethodHS256
                            (zero_Claims\<lparr>Subject := Username userAndPass,
                                          Issuer := ''Duet'',
                                          Audience := ''https://api.helloduet.com''\<rparr>);
                  (tokenString, err) = SignedString lib token tokenSecret
              in case err of
                   Some e \<Rightarrow> [logged, rest_Error (Error e) StatusInternalServerError]
                 | None \<Rightarrow> [logged, WriteJson [(''token'', tokenString)]]))"

text \<open>
  The key function that \<^verbatim>\<open>VerifyToken\<close> hands to the parser. The parser sets the
  method of the token before it calls the function; on a token without a method the
  call \<^verbatim>\<open>token.Method.Alg()\<close> cannot be made, which the model reports as an error.
  \<^verbatim>\<open>%v\<close> prints a missing header member as \<^verbatim>\<open><nil>\<close>.
\<close>

definition format_v :: "string option \<Rightarrow> string" where
  "format_v x = (case x of None \<Rightarrow> ''<nil>'' | Some s \<Rightarrow> s)"

definition keyFunc :: "Token \<Rightarrow> string \<times> error option" where
  "keyFunc token =
     (case Method_of token of
        None \<Rightarrow> ([], Some (ErrOther ''nil signing method''))
      | Some m \<Rightarrow>
          if Alg m \<noteq> Alg SigningMethodHS256
          then ([], Some (Errorf (''Unexpected signing method: '' @
                                  format_v (map_of (Header token) ''alg''))))
          else (tokenSecret, None))"

text \<open>
  \<^verbatim>\<open>VerifyToken\<close>: the claims and the error, and the line it logs. The type assertion
  \<^verbatim>\<open>token.Claims.(*DuetClaims)\<close> holds for every token this parser returns.
\<close>

definition VerifyToken ::
  "stdlib \<Rightarrow> int \<Rightarrow> string \<Rightarrow> (DuetClaims option \<times> error option) \<times> 'k event list" where
  "VerifyToken lib now tokenString =
     (let (token, err) = ParseWithClaims lib now tokenString keyFunc;
          logged = [Log (''Verifying token '' @ tokenString @ [CHR 0x0A])]
      in if err \<noteq> None then ((None, err), logged)
         else (case token of
                 None \<Rightarrow> ((None, Some (ErrOther ''nil token'')), logged)
               | Some t \<Rightarrow>
                   if Valid t then ((Some (Claims t), None), logged)
                   else ((None, Some (Errorf ''Token could not be parsed'')), logged)))"

section \<open>\<^verbatim>\<open>main.go\<close>: the gate in front of the GraphQL handler\<close>

text \<open>
  \<^verbatim>\<open>data.GetBearerToken\<close> and \<^verbatim>\<open>data.AuthUserId\<close> are not among the sources: they are
  parameters, each giving its value and its error; \<open>AuthUserId\<close> also gives the time
  its call takes. \<open>now\<close> is the time at which the context is made.
\<close>

definition authGraphqlHandler ::
  "(Request \<Rightarrow> string \<times> error option) \<Rightarrow> (string \<Rightarrow> (uint64 \<times> error option) \<times> int) \<Rightarrow> 'k
     \<Rightarrow> time \<Rightarrow> Request \<Rightarrow> 'k event list" where
  "authGraphqlHandler GetBearerToken AuthUserId UserIdKey now r =
     (let (token, err) = GetBearerToken r
      in case err of
           Some e \<Rightarrow> [http_Error (Error e) StatusUnauthorized]
         | None \<Rightarrow>
             (let ctx = WithTimeout Background now (500 * Millisecond);
                  ((userId, err), elapsed) = AuthUserId token
              in case err of
                   Some e \<Rightarrow> [Log (''Error verifying token: '' @ Error e),
                              http_Error ''Invalid token'' StatusUnauthorized,
                              cancel]
                 | None \<Rightarrow>
                     (let ctx = WithValue ctx UserIdKey userId
                      in [ContextHandler ctx r (now + elapsed), cancel])))"

section \<open>Vocabulary for the properties of tokens\<close>

text \<open>
  What the parser reads in the first and in the second segment of a token string: the
  segment decoded, then the JSON decoded.
\<close>

definition header_of :: "stdlib \<Rightarrow> string \<Rightarrow> header option" where
  "header_of lib seg =
     (case DecodeSegment lib seg of None \<Rightarrow> None | Some b \<Rightarrow> Unmarshal_Header lib b)"

definition claims_of :: "stdlib \<Rightarrow> string \<Rightarrow> DuetClaims option" where
  "claims_of lib seg =
     (case DecodeSegment lib seg of None \<Rightarrow> None | Some b \<Rightarrow> Unmarshal_Claims lib b)"

text \<open>
  The claims that \<^verbatim>\<open>ServeLogin\<close> puts in a token for a user name, and the three segments
  of a token string as \<^verbatim>\<open>SignedString\<close> writes them for the HMAC method with SHA-256:
  the coded header, the coded claims, and the coded keyed hash of a signing string.
\<close>

definition login_claims :: "string \<Rightarrow> DuetClaims" where
  "login_claims u =
     zero_Claims\<lparr>Subject := u, Issuer := ''Duet'', Audience := ''https://api.helloduet.com''\<rparr>"

definition header_segment :: "stdlib \<Rightarrow> string" where
  "header_segment lib =
     EncodeSegment lib (Marshal_Header lib [(''typ'', ''JWT''), (''alg'', ''HS256'')])"

definition claims_segment :: "stdlib \<Rightarrow> DuetClaims \<Rightarrow> string" where
  "claims_segment lib c = EncodeSegment lib (Marshal_Claims lib c)"

definition hmac_segment :: "stdlib \<Rightarrow> string \<Rightarrow> string \<Rightarrow> string" where
  "hmac_segment lib key signingString = EncodeSegment lib (hmac_Sum lib SHA256 key signingString)"

text \<open>
  A small coding to evaluate the functions with. A segment is coded byte by byte, \<open>,d\<close>
  for a dot and \<open>,c\<close> for a comma, so that a coded segment has no dot; a header is coded
  by its \<open>alg\<close> member, the claims by subject, issuer and audience between bars; the
  keyed hash of a message is the key, a colon and the message.
\<close>

definition toy_encode :: "string \<Rightarrow> string" where
  "toy_encode b =
     concat (map (\<lambda>c. if c = CHR ''.'' then '',d'' else if c = CHR '','' then '',c'' else [c]) b)"

fun toy_decode :: "string \<Rightarrow> string option" where
  "toy_decode [] = Some []"
| "toy_decode [c] = (if c = CHR '','' \<or> c = CHR ''.'' then None else Some [c])"
| "toy_decode (c # d # ds) =
     (if c = CHR '',''
      then (if d = CHR ''d'' then map_option ((#) (CHR ''.'')) (toy_decode ds)
            else if d = CHR ''c'' then map_option ((#) (CHR '','')) (toy_decode ds)
            else None)
      else if c = CHR ''.'' then None
      else map_option ((#) c) (toy_decode (d # ds)))"

definition toy_lib :: stdlib where
  "toy_lib =
     \<lparr>EncodeSegment = toy_encode,
      DecodeSegment = toy_decode,
      Marshal_Header = (\<lambda>h. case map_of h ''alg'' of None \<Rightarrow> [] | Some a \<Rightarrow> a),
      Unmarshal_Header = (\<lambda>b. if b = ''{'' then None
                               else if b = [] then Some [(''typ'', ''JWT'')]
                               else Some [(''typ'', ''JWT''), (''alg'', b)]),
      Marshal_Claims = (\<lambda>c. Join [Subject c, Issuer c, Audience c] ''|''),
      Unmarshal_Claims = (\<lambda>b. case Split b (CHR ''|'') of
                                 [s, i, a] \<Rightarrow> Some (zero_Claims\<lparr>Subject := s, Issuer := i,
                                                                Audience := a\<rparr>)
                               | _ \<Rightarrow> None),
      hmac_Sum = (\<lambda>h key msg. key @ '':'' @ msg),
      Sign_other = (\<lambda>m signingString key. ([], Some (ErrOther ''key is of invalid type''))),
      Verify_other = (\<lambda>m signingString signature key. Some (ErrOther ''key is of invalid type''))\<rparr>"

text \<open>
  HMAC (RFC 2104) brings a key that is shorter than the block of the hash, 64 bytes for
  SHA-256, to the length of the block by appending zero bytes, before anything else is
  done with it. The second small library keys its hash in that way.
\<close>

definition hmac_key :: "string \<Rightarrow> string" where
  "hmac_key key = key @ replicate (64 - length key) (CHR 0x00)"

definition padding_lib :: stdlib where
  "padding_lib = toy_lib\<lparr>hmac_Sum := (\<lambda>h key msg. hmac_key key @ '':'' @ msg)\<rparr>"

section \<open>A small store, for evaluating the operations\<close>

definition task_a :: Task where
  "task_a = zero_Task\<lparr>Task_Id := ''a'', Task_Title := ''Buy milk'', Task_UserId := 7\<rparr>"

definition task_b :: Task where
  "task_b = zero_Task\<lparr>Task_Id := ''b'', Task_Title := ''Run'', Task_UserId := 7\<rparr>"

definition task_c :: Task where
  "task_c = zero_Task\<lparr>Task_Id := ''c'', Task_Title := ''Read'', Task_UserId := 9\<rparr>"

definition store0 :: gormDB where
  "store0 = \<lparr>tasks = [], users = [], actions = [], users_id_seq = 0\<rparr>"

definition store3 :: gormDB where
  "store3 = \<lparr>tasks = [task_a, task_b, task_c], users = [], actions = [], users_id_seq = 9\<rparr>"

definition action_c :: Action where
  "action_c = \<lparr>Action_Id = [], Action_Kind = ActionDone, Action_When = Some 50,
                Action_TaskId = ''c''\<rparr>"

section \<open>Inputs for evaluating the handlers\<close>

text \<open>
  A request with a bearer token; functions standing for \<^verbatim>\<open>data.GetBearerToken\<close> (one that
  finds the token, one that finds none) and for \<^verbatim>\<open>data.AuthUserId\<close> (one that resolves
  user 7 in 3 ms, one that resolves user 7 in one second, one that refuses the token);
  a password hash standing for \<^verbatim>\<open>bcrypt.GenerateFromPassword\<close>; and decoded login
  payloads.
\<close>

definition request0 :: Request where
  "request0 = \<lparr>Request_Header = [(''Authorization'', ''Bearer T'')], Request_Body = ''{}''\<rparr>"

definition bearer_found :: "Request \<Rightarrow> string \<times> error option" where
  "bearer_found r = (''T'', None)"

definition bearer_missing :: "Request \<Rightarrow> string \<times> error option" where
  "bearer_missing r = ([], Some (ErrOther ''Invalid authentication method''))"

definition auth_fast :: "string \<Rightarrow> (uint64 \<times> error option) \<times> int" where
  "auth_fast token = ((7, None), 3 * Millisecond)"

definition auth_slow :: "string \<Rightarrow> (uint64 \<times> error option) \<times> int" where
  "auth_slow token = ((7, None), 1000 * Millisecond)"

definition auth_refused :: "string \<Rightarrow> (uint64 \<times> error option) \<times> int" where
  "auth_refused token = ((0, Some ErrSignatureInvalid), 3 * Millisecond)"

definition toy_bcrypt :: "string \<Rightarrow> int \<Rightarrow> string \<times> error option" where
  "toy_bcrypt password cost = (''$2a$'' @ rev password, None)"

definition payload_alice_pw1 :: "Request \<Rightarrow> usernameAndPassword \<times> error option" where
  "payload_alice_pw1 r = (\<lparr>Username = ''alice'', Password = ''pw1''\<rparr>, None)"

definition payload_alice_wrong :: "Request \<Rightarrow> usernameAndPassword \<times> error option" where
  "payload_alice_wrong r = (\<lparr>Username = ''alice'', Password = ''wrong''\<rparr>, None)"

definition payload_mallory :: "Request \<Rightarrow> usernameAndPassword \<times> error option" where
  "payload_mallory r = (\<lparr>Username = ''mallory'', Password = ''x''\<rparr>, None)"

section \<open>Properties\<close>

lemma Close_never_Some: "Close db \<noteq> Some r"
proof
  assume returned: "Close db = Some r"
  have "\<And>f x y. (\<And>x y. f x = Some y \<Longrightarrow> False) \<Longrightarrow> f x = Some y \<Longrightarrow> False"
    by blast
  then show False
    using Close.raw_induct [where P = "\<lambda>_ _. False", OF _ returned] by blast
qed

text \<open>
  C10 (as the code behaves): for every \<open>gormDB\<close> value, the call \<^verbatim>\<open>Close()\<close> never
  returns: the method calls itself without end, and the connection of the embedded
  \<^verbatim>\<open>*gorm.DB\<close> is never closed.
\<close>

theorem Close_never_returns: "Close db = None"
  using Close_never_Some [of db] by (cases "Close db") auto

subsection \<open>Conditions on rows\<close>

lemma row_matches_Nil [simp]: "row_matches [] t"
  by (simp add: row_matches_def)

lemma row_matches_Cons_id [simp]:
  "row_matches ((''id'', VString i) # cs) t \<longleftrightarrow> Task_Id t = i \<and> row_matches cs t"
  by (simp add: row_matches_def Task_fields_def)

lemma row_matches_Cons_user [simp]:
  "row_matches ((''user_id'', VUint u) # cs) t \<longleftrightarrow> Task_UserId t = u \<and> row_matches cs t"
  by (simp add: row_matches_def Task_fields_def)

lemma row_matches_Cons_kind [simp]:
  "row_matches ((''kind'', VInt k) # cs) t \<longleftrightarrow> Task_Kind t = k \<and> row_matches cs t"
  by (simp add: row_matches_def Task_fields_def)

lemma First_Task_none:
  "scoped_tasks db conds = [] \<Longrightarrow> First_Task db conds = Inl ErrRecordNotFound"
  by (simp add: First_Task_def)

text \<open>
  \<^verbatim>\<open>GetTask\<close> answers \<^verbatim>\<open>(nil, ErrRecordNotFound)\<close> whenever no visible row has both the
  id and the owner asked for, whatever else the table holds.
\<close>

lemma GetTask_not_found:
  assumes "\<forall>t \<in> set (tasks db).
             \<not> (Task_DeletedAt t = None \<and> Task_Id t = taskId \<and> Task_UserId t = userId)"
  shows "GetTask db taskId userId kind = (None, Some ErrRecordNotFound)"
proof -
  have "scoped_tasks db [(''id'', VString taskId), (''user_id'', VUint userId)] = []"
    using assms by (auto simp: scoped_tasks_def filter_empty_conv)
  moreover have "scoped_tasks db
      [(''id'', VString taskId), (''user_id'', VUint userId), (''kind'', VInt k)] = []" for k
    using assms by (auto simp: scoped_tasks_def filter_empty_conv)
  ultimately show ?thesis
    by (cases kind) (simp_all add: GetTask_def First_Task_none)
qed

subsection \<open>Reading a task\<close>

text \<open>
  C3: let the primary key \<open>id\<close> be unique in the table (as the store enforces). For a
  task id and two distinct users A and B, \<open>GetTask id A\<close> on a store where the task with
  that id exists and belongs to B has the same outcome as on a store with no task of
  that id: no task, and the error \<^verbatim>\<open>ErrRecordNotFound\<close>, for every \<open>kind\<close> filter.
\<close>

theorem GetTask_not_owned_same_as_missing:
  assumes "distinct (map Task_Id (tasks db1))"
    and "t \<in> set (tasks db1)" and "Task_Id t = taskId" and "Task_UserId t = B" and "A \<noteq> B"
    and "taskId \<notin> set (map Task_Id (tasks db2))"
  shows "GetTask db1 taskId A kind = (None, Some ErrRecordNotFound)
       \<and> GetTask db2 taskId A kind = GetTask db1 taskId A kind"
proof -
  have "\<forall>r \<in> set (tasks db1). Task_Id r = taskId \<longrightarrow> r = t"
    using assms(1,2,3) by (metis distinct_map inj_onD)
  then have "\<forall>r \<in> set (tasks db1).
      \<not> (Task_DeletedAt r = None \<and> Task_Id r = taskId \<and> Task_UserId r = A)"
    using assms(4,5) by auto
  moreover have "\<forall>r \<in> set (tasks db2).
      \<not> (Task_DeletedAt r = None \<and> Task_Id r = taskId \<and> Task_UserId r = A)"
    using assms(6) by auto
  ultimately show ?thesis
    by (simp add: GetTask_not_found)
qed

text \<open>
  On the store of three tasks, user 7 asks for task \<open>c\<close> of user 9, and for the same id
  on the empty store; the owner, user 9, does get the task.
\<close>

theorem GetTask_not_owned_same_as_missing_witness:
  "distinct (map Task_Id (tasks store3)) \<and> task_c \<in> set (tasks store3)
   \<and> Task_Id task_c = ''c'' \<and> Task_UserId task_c = 9 \<and> (7 :: uint64) \<noteq> 9
   \<and> ''c'' \<notin> set (map Task_Id (tasks store0))
   \<and> GetTask store3 ''c'' 7 None = (None, Some ErrRecordNotFound)
   \<and> GetTask store0 ''c'' 7 None = GetTask store3 ''c'' 7 None
   \<and> GetTask store3 ''c'' 9 None = (Some task_c, None)"
proof -
  have h1: "distinct (map Task_Id (tasks store3))"
    by (simp add: store3_def task_a_def task_b_def task_c_def zero_Task_def)
  have h2: "task_c \<in> set (tasks store3)"
    by (simp add: store3_def)
  have h3: "Task_Id task_c = ''c''" and h4: "Task_UserId task_c = 9"
    by (simp_all add: task_c_def)
  have h5: "(7 :: uint64) \<noteq> 9"
    by simp
  have h6: "''c'' \<notin> set (map Task_Id (tasks store0))"
    by (simp add: store0_def)
  have owner: "GetTask store3 ''c'' 9 None = (Some task_c, None)"
    by (simp add: GetTask_def First_Task_def scoped_tasks_def Preload_Actions_def store3_def
        task_a_def task_b_def task_c_def zero_Task_def)
  show ?thesis
    using GetTask_not_owned_same_as_missing [OF h1 h2 h3 h4 h5 h6, of None] h1 h2 h3 h4 h6 owner
    by simp
qed

subsection \<open>Adding a task\<close>

text \<open>
  C4: for every task value and every \<open>userId\<close>, \<open>AddTask task userId\<close> does not depend
  on the owner the caller put in the task, and the task it hands back is owned by
  \<open>userId\<close>. When the id of the task (the generated one, for a task without id) is
  not yet in the table, the call succeeds and the table has exactly one more row, which
  is owned by \<open>userId\<close> and carries the id, title, kind and done flag of the task. When
  the id is taken, the call fails with the store's error and the store is unchanged.
  So a call that succeeds has stored the task under \<open>userId\<close>, and a call that fails has
  stored nothing.
\<close>

theorem AddTask_stamps_owner:
  "AddTask now uuid db (task\<lparr>Task_UserId := attacker\<rparr>) userId = AddTask now uuid db task userId
   \<and> Task_UserId (fst (fst (AddTask now uuid db task userId))) = userId
   \<and> ((if Task_Id task = [] then uuid else Task_Id task) \<notin> set (map Task_Id (tasks db)) \<longrightarrow>
        snd (fst (AddTask now uuid db task userId)) = None
        \<and> (\<exists>row. tasks (snd (AddTask now uuid db task userId)) = tasks db @ [row]
               \<and> Task_UserId row = userId
               \<and> Task_Id row = (if Task_Id task = [] then uuid else Task_Id task)
               \<and> Task_Title row = Task_Title task \<and> Task_Kind row = Task_Kind task
               \<and> Task_Done row = Task_Done task))
   \<and> ((if Task_Id task = [] then uuid else Task_Id task) \<in> set (map Task_Id (tasks db)) \<longrightarrow>
        snd (fst (AddTask now uuid db task userId)) = Some (ErrUniqueViolation ''tasks_pkey'')
        \<and> snd (AddTask now uuid db task userId) = db)
   \<and> (snd (fst (AddTask now uuid db task userId)) = None \<longrightarrow>
        (\<exists>row. tasks (snd (AddTask now uuid db task userId)) = tasks db @ [row]
               \<and> Task_UserId row = userId
               \<and> Task_Id row = (if Task_Id task = [] then uuid else Task_Id task)
               \<and> Task_Title row = Task_Title task \<and> Task_Kind row = Task_Kind task))
   \<and> (snd (fst (AddTask now uuid db task userId)) \<noteq> None \<longrightarrow>
        snd (AddTask now uuid db task userId) = db)"
  by (simp add: AddTask_def Create_Task_def Let_def)

text \<open>
  A task titled \<open>Buy milk\<close> that names user 666 as its owner, added by user 7 to the
  store of three tasks, where the id \<open>d\<close> is free: the call succeeds and the new row
  belongs to user 7.
\<close>

theorem AddTask_stamps_owner_witness:
  "''d'' \<notin> set (map Task_Id (tasks store3))
   \<and> snd (fst (AddTask 100 ''d'' store3 (zero_Task\<lparr>Task_Title := ''Buy milk'', Task_UserId := 666\<rparr>) 7))
     = None
   \<and> (\<exists>row. tasks (snd (AddTask 100 ''d'' store3
                            (zero_Task\<lparr>Task_Title := ''Buy milk'', Task_UserId := 666\<rparr>) 7))
               = tasks store3 @ [row]
             \<and> Task_UserId row = 7 \<and> Task_Id row = ''d'' \<and> Task_Title row = ''Buy milk'')"
proof -
  have fresh: "''d'' \<notin> set (map Task_Id (tasks store3))"
    by (simp add: store3_def task_a_def task_b_def task_c_def zero_Task_def)
  have blank: "Task_Id (zero_Task\<lparr>Task_Title := ''Buy milk'', Task_UserId := 666\<rparr>) = []"
    and title: "Task_Title (zero_Task\<lparr>Task_Title := ''Buy milk'', Task_UserId := 666\<rparr>) = ''Buy milk''"
    by (simp_all add: zero_Task_def)
  note stored = AddTask_stamps_owner [where now = 100 and uuid = "''d''" and db = store3
        and task = "zero_Task\<lparr>Task_Title := ''Buy milk'', Task_UserId := 666\<rparr>"
        and attacker = 666 and userId = 7, THEN conjunct2, THEN conjunct2, THEN conjunct1]
  show ?thesis
    using stored fresh unfolding blank title by auto
qed

subsection \<open>Adding an action\<close>

text \<open>
  C7: for every action and \<open>userId\<close>, if no visible task has the id \<open>action.TaskId\<close> and
  the owner \<open>userId\<close> (the parent does not exist, or belongs to somebody else), then
  \<open>AddAction action userId\<close> returns the error
  \<^verbatim>\<open>Task <id> does not exist for user <userId>\<close> and the store, hence its table of
  actions, is unchanged.
\<close>

theorem AddAction_not_owned:
  assumes "\<forall>t \<in> set (tasks db).
             \<not> (Task_DeletedAt t = None \<and> Task_Id t = Action_TaskId action \<and> Task_UserId t = userId)"
  shows "snd (fst (AddAction uuid db action userId)) =
           Some (Errorf (''Task '' @ Action_TaskId action @ '' does not exist for user '' @
                         format_d userId))
       \<and> snd (AddAction uuid db action userId) = db
       \<and> actions (snd (AddAction uuid db action userId)) = actions db"
  using GetTask_not_found [OF assms, of None] by (simp add: AddAction_def)

lemma format_d_7: "format_d 7 = ''7''"
  by (simp add: format_d_def decimal.simps digit_char_def) code_simp

text \<open>
  User 7 adds an action to task \<open>c\<close> of user 9 and is refused; user 9 adds the same
  action and the table of actions gets its row.
\<close>

theorem AddAction_not_owned_witness:
  "\<not> (\<exists>t \<in> set (tasks store3).
        Task_DeletedAt t = None \<and> Task_Id t = Action_TaskId action_c \<and> Task_UserId t = 7)
   \<and> snd (fst (AddAction ''x'' store3 action_c 7)) =
       Some (Errorf ''Task c does not exist for user 7'')
   \<and> snd (AddAction ''x'' store3 action_c 7) = store3
   \<and> AddAction ''x'' store3 action_c 9 =
       ((action_c\<lparr>Action_Id := ''x''\<rparr>, None), store3\<lparr>actions := [action_c\<lparr>Action_Id := ''x''\<rparr>]\<rparr>)"
proof -
  have h: "\<forall>t \<in> set (tasks store3).
      \<not> (Task_DeletedAt t = None \<and> Task_Id t = Action_TaskId action_c \<and> Task_UserId t = 7)"
    by (simp add: store3_def task_a_def task_b_def task_c_def zero_Task_def action_c_def)
  have msg: "''Task '' @ Action_TaskId action_c @ '' does not exist for user '' @ format_d 7
      = ''Task c does not exist for user 7''"
    by (simp add: action_c_def format_d_7)
  have owner: "AddAction ''x'' store3 action_c 9 =
       ((action_c\<lparr>Action_Id := ''x''\<rparr>, None), store3\<lparr>actions := [action_c\<lparr>Action_Id := ''x''\<rparr>]\<rparr>)"
    by (simp add: AddAction_def GetTask_def First_Task_def scoped_tasks_def Preload_Actions_def
        Create_Action_def Let_def store3_def task_a_def task_b_def task_c_def zero_Task_def action_c_def)
  show ?thesis
    using AddAction_not_owned [OF h, of "''x''"] h owner unfolding msg by simp
qed

subsection \<open>Deleting a task\<close>

lemma struct_conditions_DeleteTask:
  "struct_conditions (zero_Task\<lparr>Task_Id := taskId, Task_UserId := userId\<rparr>) =
     (if taskId = [] then [] else [(''id'', VString taskId)]) @
     (if userId = 0 then [] else [(''user_id'', VUint userId)])"
  by (simp add: struct_conditions_def Task_fields_def zero_Task_def ptr_value_def)

text \<open>
  What \<open>DeleteTask\<close> does on every input: a blank \<open>taskId\<close> and a \<open>userId\<close> of \<open>0\<close> are
  zero values of their struct fields and put no condition on the rows.
\<close>

lemma DeleteTask_eq:
  "DeleteTask now db taskId userId =
     ((\<exists>t \<in> set (tasks db). Task_DeletedAt t = None \<and> (taskId \<noteq> [] \<longrightarrow> Task_Id t = taskId)
                             \<and> (userId \<noteq> 0 \<longrightarrow> Task_UserId t = userId), None),
      db\<lparr>tasks := map (\<lambda>t. if Task_DeletedAt t = None \<and> (taskId \<noteq> [] \<longrightarrow> Task_Id t = taskId)
                             \<and> (userId \<noteq> 0 \<longrightarrow> Task_UserId t = userId)
                           then t\<lparr>Task_DeletedAt := Some now\<rparr> else t) (tasks db)\<rparr>)"
  by (auto simp: DeleteTask_def Delete_Task_def struct_conditions_DeleteTask Let_def
        filter_empty_conv
      intro!: arg_cong [where f = "\<lambda>f. db\<lparr>tasks := map f (tasks db)\<rparr>"])

text \<open>
  For a \<open>taskId\<close> that is not blank and a \<open>userId\<close> that is not \<open>0\<close>, the delete is
  scoped as intended: without a visible row of that id and owner it answers
  \<^verbatim>\<open>(false, nil)\<close> and leaves the store as it is; with one it answers \<^verbatim>\<open>(true, nil)\<close> and
  afterwards no visible row has that id and owner.
\<close>

lemma DeleteTask_scoped_eq:
  assumes "taskId \<noteq> []" and "userId \<noteq> 0"
  shows "DeleteTask now db taskId userId =
     ((\<exists>t \<in> set (tasks db). Task_DeletedAt t = None \<and> Task_Id t = taskId \<and> Task_UserId t = userId,
       None),
      db\<lparr>tasks := map (\<lambda>t. if Task_DeletedAt t = None \<and> Task_Id t = taskId \<and> Task_UserId t = userId
                           then t\<lparr>Task_DeletedAt := Some now\<rparr> else t) (tasks db)\<rparr>)"
  using assms by (simp add: DeleteTask_eq)

lemma DeleteTask_scoped_none:
  assumes "taskId \<noteq> []" and "userId \<noteq> 0"
    and none: "\<forall>t \<in> set (tasks db).
             \<not> (Task_DeletedAt t = None \<and> Task_Id t = taskId \<and> Task_UserId t = userId)"
  shows "DeleteTask now db taskId userId = ((False, None), db)"
proof -
  have "map (\<lambda>t. if Task_DeletedAt t = None \<and> Task_Id t = taskId \<and> Task_UserId t = userId
                 then t\<lparr>Task_DeletedAt := Some now\<rparr> else t) (tasks db) = tasks db"
    by (rule map_idI) (use none in simp)
  then show ?thesis
    using assms by (simp add: DeleteTask_eq)
qed

lemma DeleteTask_scoped_some:
  assumes "taskId \<noteq> []" and "userId \<noteq> 0"
    and some: "\<exists>t \<in> set (tasks db).
             Task_DeletedAt t = None \<and> Task_Id t = taskId \<and> Task_UserId t = userId"
  shows "fst (DeleteTask now db taskId userId) = (True, None)"
    and "GetTask (snd (DeleteTask now db taskId userId)) taskId userId kind
           = (None, Some ErrRecordNotFound)"
proof -
  note eq = DeleteTask_scoped_eq [OF assms(1,2), of now db]
  show "fst (DeleteTask now db taskId userId) = (True, None)"
    unfolding eq using some by simp
  have "\<not> (Task_DeletedAt r = None \<and> Task_Id r = taskId \<and> Task_UserId r = userId)"
    if "r \<in> set (tasks (snd (DeleteTask now db taskId userId)))" for r
  proof -
    let ?F = "\<lambda>t. if Task_DeletedAt t = None \<and> Task_Id t = taskId \<and> Task_UserId t = userId
                   then t\<lparr>Task_DeletedAt := Some now\<rparr> else t"
    have sel: "tasks (db\<lparr>tasks := xs\<rparr>) = xs" for xs
      by simp
    have "r \<in> set (map ?F (tasks db))"
      using that unfolding eq by (simp only: snd_conv sel)
    then have "r \<in> ?F ` set (tasks db)"
      by (simp only: set_map)
    then obtain t where r: "r = ?F t"
      by (rule imageE)
    show ?thesis
      unfolding r
      by (cases "Task_DeletedAt t = None \<and> Task_Id t = taskId \<and> Task_UserId t = userId") simp_all
  qed
  then have "\<forall>t \<in> set (tasks (snd (DeleteTask now db taskId userId))).
      \<not> (Task_DeletedAt t = None \<and> Task_Id t = taskId \<and> Task_UserId t = userId)"
    by blast
  then show "GetTask (snd (DeleteTask now db taskId userId)) taskId userId kind
           = (None, Some ErrRecordNotFound)"
    by (rule GetTask_not_found)
qed

text \<open>
  C8 (as the code behaves): on the store of three tasks, where no row has the id \<^verbatim>\<open>""\<close>,
  \<open>DeleteTask "" 7\<close> answers \<^verbatim>\<open>(true, nil)\<close> and marks both tasks of user 7 deleted; and
  \<open>DeleteTask "c" 0\<close>, where task \<open>c\<close> belongs to user 9 and no task to user 0, answers
  \<^verbatim>\<open>(true, nil)\<close> and marks task \<open>c\<close> deleted.
\<close>

theorem DeleteTask_blank_arguments_unscoped:
  "DeleteTask 100 store3 [] 7 =
     ((True, None), store3\<lparr>tasks := [task_a\<lparr>Task_DeletedAt := Some 100\<rparr>,
                                      task_b\<lparr>Task_DeletedAt := Some 100\<rparr>, task_c]\<rparr>)
   \<and> DeleteTask 100 store3 ''c'' 0 =
     ((True, None), store3\<lparr>tasks := [task_a, task_b, task_c\<lparr>Task_DeletedAt := Some 100\<rparr>]\<rparr>)"
  unfolding DeleteTask_def Let_def struct_conditions_DeleteTask
  by (simp add: Delete_Task_def Let_def store3_def task_a_def task_b_def task_c_def zero_Task_def)

subsection \<open>Splitting a token string, and the parser\<close>

lemma Split_not_Nil: "Split xs sep \<noteq> []"
  by (induction xs) (auto split: list.splits)

lemma Split_no_sep: "sep \<notin> set xs \<Longrightarrow> Split xs sep = [xs]"
  by (induction xs) auto

lemma Split_append: "sep \<notin> set xs \<Longrightarrow> Split (xs @ sep # ys) sep = xs # Split ys sep"
  by (induction xs) (auto simp: Split_not_Nil split: list.splits)

lemma Split_three:
  assumes "sep \<notin> set a" and "sep \<notin> set b" and "sep \<notin> set c"
  shows "Split (a @ sep # b @ sep # c) sep = [a, b, c]"
  using assms by (simp add: Split_append Split_no_sep)

lemma GetSigningMethod_HS256: "GetSigningMethod ''HS256'' = Some SigningMethodHS256"
  by (simp add: GetSigningMethod_def signingMethods_def SigningMethodHS256_def)

lemma GetSigningMethod_Alg: "GetSigningMethod a = Some m \<Longrightarrow> Alg m = a"
  unfolding GetSigningMethod_def by (auto simp: find_Some_iff)

lemma Alg_HS256: "Alg SigningMethodHS256 = ''HS256''"
  by (simp add: SigningMethodHS256_def)

lemma Claims_Valid_zero_times:
  "ExpiresAt c = 0 \<Longrightarrow> IssuedAt c = 0 \<Longrightarrow> NotBefore c = 0 \<Longrightarrow> Claims_Valid c now = None"
  by (simp add: Claims_Valid_def verifyExp_def verifyIat_def verifyNbf_def)

lemma keyFunc_wrong_alg:
  "Method_of t = Some m \<Longrightarrow> Alg m \<noteq> ''HS256'' \<Longrightarrow>
     keyFunc t = ([], Some (Errorf (''Unexpected signing method: '' @
                                    format_v (map_of (Header t) ''alg''))))"
  by (simp add: keyFunc_def Alg_HS256)

lemma keyFunc_HS256:
  "Method_of t = Some SigningMethodHS256 \<Longrightarrow> keyFunc t = (tokenSecret, None)"
  by (simp add: keyFunc_def)


lemma Parse_malformed_count:
  assumes "\<forall>a b c. Split s (CHR ''.'') \<noteq> [a, b, c]"
  shows "ParseWithClaims lib now s kf =
    (None, Some (ValidationError None ValidationErrorMalformed
                   ''token contains an invalid number of segments''))"
  using assms by (auto simp: ParseWithClaims_def split: list.splits)

lemma Parse_malformed_header:
  assumes "Split s (CHR ''.'') = [p0, p1, p2]" and "header_of lib p0 = None"
  shows "\<exists>t inner. ParseWithClaims lib now s kf =
    (Some t, Some (ValidationError inner ValidationErrorMalformed []))"
  using assms by (auto simp: ParseWithClaims_def header_of_def split: option.splits)

lemma Parse_malformed_claims:
  assumes "Split s (CHR ''.'') = [p0, p1, p2]" and "header_of lib p0 = Some hdr"
    and "claims_of lib p1 = None"
  shows "\<exists>t inner. ParseWithClaims lib now s kf =
    (Some t, Some (ValidationError inner ValidationErrorMalformed []))"
  using assms by (auto simp: ParseWithClaims_def header_of_def claims_of_def split: option.splits)

lemma Parse_wrong_alg:
  assumes "Split s (CHR ''.'') = [p0, p1, p2]" and "header_of lib p0 = Some hdr"
    and "claims_of lib p1 = Some c" and "map_of hdr ''alg'' \<noteq> Some ''HS256''"
  shows "\<exists>t inner text. ParseWithClaims lib now s keyFunc =
    (Some t, Some (ValidationError inner ValidationErrorUnverifiable text))"
proof (cases "map_of hdr ''alg''")
  case None
  then show ?thesis
    using assms by (auto simp: ParseWithClaims_def header_of_def claims_of_def split: option.splits)
next
  case (Some a)
  show ?thesis
  proof (cases "GetSigningMethod a")
    case None
    then show ?thesis
      using assms Some
      by (auto simp: ParseWithClaims_def header_of_def claims_of_def split: option.splits)
  next
    case (Some m)
    with assms(4) \<open>map_of hdr ''alg'' = Some a\<close> have "Alg m \<noteq> ''HS256''"
      using GetSigningMethod_Alg by auto
    then show ?thesis
      using assms Some \<open>map_of hdr ''alg'' = Some a\<close>
      by (auto simp: ParseWithClaims_def header_of_def claims_of_def Let_def keyFunc_wrong_alg
          split: option.splits)
  qed
qed

lemma or_flag_nonzero:
  "(w OR ValidationErrorSignatureInvalid) AND ValidationErrorSignatureInvalid \<noteq> (0 :: 32 word)"
  by (simp add: ValidationErrorSignatureInvalid_def)

lemma Verify_HS256:
  "Verify lib SigningMethodHS256 sstr sig key =
     (case DecodeSegment lib sig of
        None \<Rightarrow> Some ErrSegment
      | Some b \<Rightarrow> if b \<noteq> hmac_Sum lib SHA256 key sstr then Some ErrSignatureInvalid else None)"
  by (simp add: Verify_def SigningMethodHS256_def)

lemma Parse_bad_signature:
  assumes "Split s (CHR ''.'') = [p0, p1, p2]" and "header_of lib p0 = Some hdr"
    and "claims_of lib p1 = Some c" and "map_of hdr ''alg'' = Some ''HS256''"
    and "DecodeSegment lib p2 \<noteq> Some (hmac_Sum lib SHA256 tokenSecret (p0 @ ''.'' @ p1))"
  shows "\<exists>t inner errors. ParseWithClaims lib now s keyFunc =
      (Some t, Some (ValidationError inner errors []))
    \<and> errors AND ValidationErrorSignatureInvalid \<noteq> 0"
proof -
  obtain hb cb where hb: "DecodeSegment lib p0 = Some hb" "Unmarshal_Header lib hb = Some hdr"
    and cb: "DecodeSegment lib p1 = Some cb" "Unmarshal_Claims lib cb = Some c"
    using assms(2,3) by (auto simp: header_of_def claims_of_def split: option.splits)
  have bad: "Verify lib SigningMethodHS256 (p0 @ ''.'' @ p1) p2 tokenSecret \<noteq> None"
    using assms(5) by (auto simp: Verify_HS256 split: option.splits)
  then obtain e where e: "Verify lib SigningMethodHS256 (p0 @ ''.'' @ p1) p2 tokenSecret = Some e"
    by auto
  obtain i0 f0 where v0: "(case Claims_Valid c now of
                          None \<Rightarrow> (None, 0)
                        | Some (ValidationError inner errors text) \<Rightarrow> (inner, errors)
                        | Some e \<Rightarrow> (Some e, ValidationErrorClaimsInvalid)) = (i0, f0)"
    by (cases "(case Claims_Valid c now of
                          None \<Rightarrow> (None, 0 :: 32 word)
                        | Some (ValidationError inner errors text) \<Rightarrow> (inner, errors)
                        | Some e \<Rightarrow> (Some e, ValidationErrorClaimsInvalid))") 
  have nz: "f0 OR ValidationErrorSignatureInvalid \<noteq> 0"
    using or_flag_nonzero [of f0] by (auto simp: or_eq_0_iff)
  have "ParseWithClaims lib now s keyFunc =
      (Some \<lparr>Raw = s, Method_of = Some SigningMethodHS256, Header = hdr, Claims = c,
              Signature = p2, Valid = False\<rparr>,
       Some (ValidationError (Some e) (f0 OR ValidationErrorSignatureInvalid) []))"
    using assms(1,4) hb cb e nz
    by (simp add: ParseWithClaims_def GetSigningMethod_HS256 keyFunc_HS256 v0 Let_def)
  then show ?thesis
    using or_flag_nonzero [of f0] by simp
qed

lemma Parse_accepts:
  assumes "Split s (CHR ''.'') = [p0, p1, p2]" and "header_of lib p0 = Some hdr"
    and "claims_of lib p1 = Some c" and "map_of hdr ''alg'' = Some ''HS256''"
    and "Claims_Valid c now = None"
    and "DecodeSegment lib p2 = Some (hmac_Sum lib SHA256 tokenSecret (p0 @ ''.'' @ p1))"
  shows "ParseWithClaims lib now s keyFunc =
      (Some \<lparr>Raw = s, Method_of = Some SigningMethodHS256, Header = hdr, Claims = c,
              Signature = p2, Valid = True\<rparr>, None)"
proof -
  obtain hb cb where hb: "DecodeSegment lib p0 = Some hb" "Unmarshal_Header lib hb = Some hdr"
    and cb: "DecodeSegment lib p1 = Some cb" "Unmarshal_Claims lib cb = Some c"
    using assms(2,3) by (auto simp: header_of_def claims_of_def split: option.splits)
  show ?thesis
    using assms(1,4,5,6) hb cb
    by (simp add: ParseWithClaims_def GetSigningMethod_HS256 keyFunc_HS256 Verify_HS256 Let_def)
qed

lemma VerifyToken_error:
  "ParseWithClaims lib now s keyFunc = (t, Some e) \<Longrightarrow> fst (VerifyToken lib now s) = (None, Some e)"
  by (simp add: VerifyToken_def)

lemma VerifyToken_valid:
  "ParseWithClaims lib now s keyFunc = (Some t, None) \<Longrightarrow> Valid t \<Longrightarrow>
     fst (VerifyToken lib now s) = (Some (Claims t), None)"
  by (simp add: VerifyToken_def)

lemma SignedString_HS256:
  "SignedString lib (NewWithClaims SigningMethodHS256 c) key =
     (header_segment lib @ ''.'' @ claims_segment lib c @ ''.'' @
        hmac_segment lib key (header_segment lib @ ''.'' @ claims_segment lib c), None)"
  by (simp add: SignedString_def SigningString_def NewWithClaims_def Sign_def
      SigningMethodHS256_def Let_def header_segment_def claims_segment_def hmac_segment_def)

subsection \<open>Issuing a token, then verifying it\<close>

text \<open>
  C5: for every user name \<open>u\<close>, \<open>ServeLogin\<close> answers a login of \<open>u\<close> with the token
  string made of the coded header, the coded claims \<open>{subject: u, issuer, audience}\<close> and
  their HMAC under the service's secret, and \<open>VerifyToken\<close>, at any time \<open>now\<close>, accepts
  that string and returns claims whose subject is \<open>u\<close>. The standard library is assumed
  to read back what it wrote for this token: the coded segments have no dot, and the
  header, the claims and the keyed hash decode to themselves.
\<close>

theorem issued_token_verifies:
  fixes lib :: stdlib and u :: string
  defines "h \<equiv> header_segment lib"
  defines "p \<equiv> claims_segment lib (login_claims u)"
  defines "sig \<equiv> hmac_segment lib tokenSecret (header_segment lib @ ''.'' @ claims_segment lib (login_claims u))"
  assumes payload: "DecodeJsonPayload r = (\<lparr>Username = u, Password = pw\<rparr>, None)"
    and dots: "CHR ''.'' \<notin> set h \<and> CHR ''.'' \<notin> set p \<and> CHR ''.'' \<notin> set sig"
    and hdr: "header_of lib h = Some hdr \<and> map_of hdr ''alg'' = Some ''HS256''"
    and clm: "claims_of lib p = Some (login_claims u)"
    and mac: "DecodeSegment lib sig = Some (hmac_Sum lib SHA256 tokenSecret (h @ ''.'' @ p))"
  shows "(ServeLogin lib DecodeJsonPayload r :: 'k event list) =
           [Log (''Username: '' @ u @ '', Password: '' @ pw @ [CHR 0x0A]),
            WriteJson [(''token'', h @ ''.'' @ p @ ''.'' @ sig)]]
       \<and> fst (VerifyToken lib now (h @ ''.'' @ p @ ''.'' @ sig) :: _ \<times> 'k event list)
           = (Some (login_claims u), None)
       \<and> Subject (login_claims u) = u"
proof -
  have login: "(ServeLogin lib DecodeJsonPayload r :: 'k event list) =
           [Log (''Username: '' @ u @ '', Password: '' @ pw @ [CHR 0x0A]),
            WriteJson [(''token'', h @ ''.'' @ p @ ''.'' @ sig)]]"
    using payload
    by (simp add: ServeLogin_def SignedString_HS256 Let_def h_def p_def sig_def
        login_claims_def [symmetric])
  have split: "Split (h @ ''.'' @ p @ ''.'' @ sig) (CHR ''.'') = [h, p, sig]"
    using dots Split_three [of "CHR ''.''" h p sig] by simp
  have valid: "Claims_Valid (login_claims u) now = None"
    by (rule Claims_Valid_zero_times) (simp_all add: login_claims_def zero_Claims_def)
  have "ParseWithClaims lib now (h @ ''.'' @ p @ ''.'' @ sig) keyFunc =
      (Some \<lparr>Raw = h @ ''.'' @ p @ ''.'' @ sig, Method_of = Some SigningMethodHS256,
              Header = hdr, Claims = login_claims u, Signature = sig, Valid = True\<rparr>, None)"
    using Parse_accepts [OF split _ clm _ valid mac] hdr by simp
  then have "fst (VerifyToken lib now (h @ ''.'' @ p @ ''.'' @ sig) :: _ \<times> 'k event list)
      = (Some (login_claims u), None)"
    using VerifyToken_valid by fastforce
  moreover have "Subject (login_claims u) = u"
    by (simp add: login_claims_def)
  ultimately show ?thesis
    using login by simp
qed

text \<open>The small coding, evaluated on the token of user \<open>alice\<close>.\<close>

lemma toy_lib_sel:
  "EncodeSegment toy_lib = toy_encode"
  "DecodeSegment toy_lib = toy_decode"
  "Unmarshal_Header toy_lib b =
     (if b = ''{'' then None else if b = [] then Some [(''typ'', ''JWT'')]
      else Some [(''typ'', ''JWT''), (''alg'', b)])"
  "Unmarshal_Claims toy_lib b =
     (case Split b (CHR ''|'') of
        [s, i, a] \<Rightarrow> Some (zero_Claims\<lparr>Subject := s, Issuer := i, Audience := a\<rparr>)
      | _ \<Rightarrow> None)"
  "hmac_Sum toy_lib h key msg = key @ '':'' @ msg"
  by (simp_all add: toy_lib_def)

lemma toy_header_segment: "header_segment toy_lib = ''HS256''"
  by (simp add: header_segment_def toy_lib_def toy_encode_def)

lemma toy_claims_segment:
  "claims_segment toy_lib (login_claims ''alice'') = ''alice|Duet|https://api,dhelloduet,dcom''"
  by (simp add: claims_segment_def login_claims_def zero_Claims_def toy_lib_def toy_encode_def)

lemma toy_hmac_segment:
  "hmac_segment toy_lib key ''HS256.alice|Duet|https://api,dhelloduet,dcom''
     = toy_encode key @ '':HS256,dalice|Duet|https://api,cdhelloduet,cdcom''"
  by (simp add: hmac_segment_def toy_lib_def toy_encode_def)

lemma toy_secret: "toy_encode tokenSecret = ''someSecret''"
  by (simp add: tokenSecret_def toy_encode_def)

theorem issued_token_verifies_witness:
  "(ServeLogin toy_lib (\<lambda>r. (\<lparr>Username = ''alice'', Password = ''pw1''\<rparr>, None))
       \<lparr>Request_Header = [], Request_Body = []\<rparr> :: unit event list) =
     [Log (''Username: alice, Password: pw1'' @ [CHR 0x0A]),
      WriteJson [(''token'', ''HS256.alice|Duet|https://api,dhelloduet,dcom.'' @
                             ''someSecret:HS256,dalice|Duet|https://api,cdhelloduet,cdcom'')]]
   \<and> fst (VerifyToken toy_lib 1478000000
            (''HS256.alice|Duet|https://api,dhelloduet,dcom.'' @
             ''someSecret:HS256,dalice|Duet|https://api,cdhelloduet,cdcom'') :: _ \<times> unit event list)
       = (Some (login_claims ''alice''), None)
   \<and> Subject (login_claims ''alice'') = ''alice''"
proof -
  let ?sig = "''someSecret:HS256,dalice|Duet|https://api,cdhelloduet,cdcom''"
  have sig: "hmac_segment toy_lib tokenSecret
      (header_segment toy_lib @ ''.'' @ claims_segment toy_lib (login_claims ''alice'')) = ?sig"
    by (simp add: toy_header_segment toy_claims_segment toy_hmac_segment toy_secret)
  have dots: "CHR ''.'' \<notin> set (header_segment toy_lib)
      \<and> CHR ''.'' \<notin> set (claims_segment toy_lib (login_claims ''alice''))
      \<and> CHR ''.'' \<notin> set (hmac_segment toy_lib tokenSecret
            (header_segment toy_lib @ ''.'' @ claims_segment toy_lib (login_claims ''alice'')))"
    unfolding sig by (simp add: toy_header_segment toy_claims_segment)
  have hdr: "header_of toy_lib (header_segment toy_lib) = Some [(''typ'', ''JWT''), (''alg'', ''HS256'')]
      \<and> map_of [(''typ'', ''JWT''), (''alg'', ''HS256'')] ''alg'' = Some ''HS256''"
    by (simp add: toy_header_segment header_of_def toy_lib_sel)
  have clm: "claims_of toy_lib (claims_segment toy_lib (login_claims ''alice''))
      = Some (login_claims ''alice'')"
    unfolding toy_claims_segment by (simp add: claims_of_def toy_lib_sel login_claims_def)
  have mac: "DecodeSegment toy_lib (hmac_segment toy_lib tokenSecret
        (header_segment toy_lib @ ''.'' @ claims_segment toy_lib (login_claims ''alice'')))
      = Some (hmac_Sum toy_lib SHA256 tokenSecret
          (header_segment toy_lib @ ''.'' @ claims_segment toy_lib (login_claims ''alice'')))"
    unfolding sig by (simp add: toy_header_segment toy_claims_segment toy_lib_sel tokenSecret_def)
  show ?thesis
    using issued_token_verifies [where lib = toy_lib and u = "''alice''" and pw = "''pw1''"
        and DecodeJsonPayload = "\<lambda>r. (\<lparr>Username = ''alice'', Password = ''pw1''\<rparr>, None)"
        and r = "\<lparr>Request_Header = [], Request_Body = []\<rparr>"
        and hdr = "[(''typ'', ''JWT''), (''alg'', ''HS256'')]" and now = 1478000000
        and 'k = unit, OF refl dots hdr clm mac]
    unfolding sig by (simp add: toy_header_segment toy_claims_segment)
qed

subsection \<open>Tokens that are refused\<close>

text \<open>
  C6 as stated fails for a secret that differs from the service's secret only by zero
  bytes at its end: HMAC pads both to the same key. With the library that keys its hash
  so, the token for \<open>alice\<close> signed with the service's secret followed by a zero byte is
  accepted by \<open>VerifyToken\<close>, which returns its claims.
\<close>

theorem VerifyToken_other_secret_counterexample:
  "tokenSecret @ [CHR 0x00] \<noteq> tokenSecret
   \<and> snd (SignedString padding_lib (NewWithClaims SigningMethodHS256 (login_claims ''alice''))
            (tokenSecret @ [CHR 0x00])) = None
   \<and> fst (VerifyToken padding_lib 5
            (fst (SignedString padding_lib (NewWithClaims SigningMethodHS256 (login_claims ''alice''))
                    (tokenSecret @ [CHR 0x00])))
          :: _ \<times> unit event list)
       = (Some (login_claims ''alice''), None)"
  by code_simp

text \<open>
  C6, amended: let a token string have three segments whose header and claims decode.
  If its header names HS256 and its signature is not the HMAC-SHA256 of the first two
  segments under the service's secret (as for a token signed with a secret whose keyed
  hash of them differs), \<open>VerifyToken\<close> returns no claims and a validation error with the
  bit \<open>SignatureInvalid\<close>. If its header names no algorithm or any algorithm other than
  HS256, \<open>VerifyToken\<close> returns no claims and a validation error \<open>Unverifiable\<close>. A
  string that has not three segments, or whose header or claims do not decode, gives no
  claims and a validation error \<open>Malformed\<close>.
\<close>

theorem VerifyToken_rejects:
  "(Split s (CHR ''.'') = [p0, p1, p2] \<and> header_of lib p0 = Some hdr \<and> claims_of lib p1 = Some c
      \<and> map_of hdr ''alg'' = Some ''HS256''
      \<and> DecodeSegment lib p2 \<noteq> Some (hmac_Sum lib SHA256 tokenSecret (p0 @ ''.'' @ p1))
     \<longrightarrow> (\<exists>inner errors.
            fst (VerifyToken lib now s :: _ \<times> 'k event list)
              = (None, Some (ValidationError inner errors []))
          \<and> errors AND ValidationErrorSignatureInvalid \<noteq> 0))
   \<and> (Split s (CHR ''.'') = [p0, p1, p2] \<and> header_of lib p0 = Some hdr \<and> claims_of lib p1 = Some c
      \<and> map_of hdr ''alg'' \<noteq> Some ''HS256''
     \<longrightarrow> (\<exists>inner text.
            fst (VerifyToken lib now s :: _ \<times> 'k event list)
              = (None, Some (ValidationError inner ValidationErrorUnverifiable text))))
   \<and> ((\<forall>a b c. Split s (CHR ''.'') \<noteq> [a, b, c])
        \<or> (Split s (CHR ''.'') = [p0, p1, p2]
            \<and> (header_of lib p0 = None \<or> (header_of lib p0 = Some hdr \<and> claims_of lib p1 = None)))
     \<longrightarrow> (\<exists>inner text.
            fst (VerifyToken lib now s :: _ \<times> 'k event list)
              = (None, Some (ValidationError inner ValidationErrorMalformed text))))"
proof (intro conjI impI)
  assume a: "Split s (CHR ''.'') = [p0, p1, p2] \<and> header_of lib p0 = Some hdr
      \<and> claims_of lib p1 = Some c \<and> map_of hdr ''alg'' = Some ''HS256''
      \<and> DecodeSegment lib p2 \<noteq> Some (hmac_Sum lib SHA256 tokenSecret (p0 @ ''.'' @ p1))"
  then obtain t inner errors where
    "ParseWithClaims lib now s keyFunc = (Some t, Some (ValidationError inner errors []))"
    and "errors AND ValidationErrorSignatureInvalid \<noteq> 0"
    using Parse_bad_signature [of s p0 p1 p2 lib hdr c now] by blast
  then show "\<exists>inner errors.
      fst (VerifyToken lib now s :: _ \<times> 'k event list) = (None, Some (ValidationError inner errors []))
      \<and> errors AND ValidationErrorSignatureInvalid \<noteq> 0"
    using VerifyToken_error by fastforce
next
  assume a: "Split s (CHR ''.'') = [p0, p1, p2] \<and> header_of lib p0 = Some hdr
      \<and> claims_of lib p1 = Some c \<and> map_of hdr ''alg'' \<noteq> Some ''HS256''"
  then obtain t inner msg where
    "ParseWithClaims lib now s keyFunc
       = (Some t, Some (ValidationError inner ValidationErrorUnverifiable msg))"
    using Parse_wrong_alg [of s p0 p1 p2 lib hdr c now] by blast
  then show "\<exists>inner text. fst (VerifyToken lib now s :: _ \<times> 'k event list)
      = (None, Some (ValidationError inner ValidationErrorUnverifiable text))"
    using VerifyToken_error by fastforce
next
  assume a: "(\<forall>a b c. Split s (CHR ''.'') \<noteq> [a, b, c])
        \<or> (Split s (CHR ''.'') = [p0, p1, p2]
            \<and> (header_of lib p0 = None \<or> (header_of lib p0 = Some hdr \<and> claims_of lib p1 = None)))"
  have "\<exists>t inner text. ParseWithClaims lib now s keyFunc
       = (t, Some (ValidationError inner ValidationErrorMalformed text))"
    using a Parse_malformed_count [of s lib now keyFunc]
      Parse_malformed_header [of s p0 p1 p2 lib now keyFunc]
      Parse_malformed_claims [of s p0 p1 p2 lib hdr now keyFunc]
    by metis
  then show "\<exists>inner text. fst (VerifyToken lib now s :: _ \<times> 'k event list)
      = (None, Some (ValidationError inner ValidationErrorMalformed text))"
    using VerifyToken_error by fastforce
qed

text \<open>
  With the small coding: a token for \<open>alice\<close> signed with the secret \<open>otherSecret\<close>, a
  token whose header names the algorithm \<open>none\<close>, and the string \<open>abc\<close>.
\<close>

theorem VerifyToken_rejects_witness:
  "(Split ''HS256.alice|Duet|x.otherSecret:HS256,dalice|Duet|x'' (CHR ''.'')
      = [''HS256'', ''alice|Duet|x'', ''otherSecret:HS256,dalice|Duet|x'']
    \<and> header_of toy_lib ''HS256'' = Some [(''typ'', ''JWT''), (''alg'', ''HS256'')]
    \<and> claims_of toy_lib ''alice|Duet|x''
        = Some (zero_Claims\<lparr>Subject := ''alice'', Issuer := ''Duet'', Audience := ''x''\<rparr>)
    \<and> DecodeSegment toy_lib ''otherSecret:HS256,dalice|Duet|x''
        \<noteq> Some (hmac_Sum toy_lib SHA256 tokenSecret (''HS256'' @ ''.'' @ ''alice|Duet|x''))
    \<and> (\<exists>inner errors.
          fst (VerifyToken toy_lib 5 ''HS256.alice|Duet|x.otherSecret:HS256,dalice|Duet|x''
                 :: _ \<times> unit event list)
            = (None, Some (ValidationError inner errors []))
          \<and> errors AND ValidationErrorSignatureInvalid \<noteq> 0))
   \<and> (Split ''none.alice|Duet|x.'' (CHR ''.'') = [''none'', ''alice|Duet|x'', []]
    \<and> header_of toy_lib ''none'' = Some [(''typ'', ''JWT''), (''alg'', ''none'')]
    \<and> (\<exists>inner text.
          fst (VerifyToken toy_lib 5 ''none.alice|Duet|x.'' :: _ \<times> unit event list)
            = (None, Some (ValidationError inner ValidationErrorUnverifiable text))))
   \<and> ((\<forall>a b c. Split ''abc'' (CHR ''.'') \<noteq> [a, b, c])
    \<and> (\<exists>inner text.
          fst (VerifyToken toy_lib 5 ''abc'' :: _ \<times> unit event list)
            = (None, Some (ValidationError inner ValidationErrorMalformed text))))"
proof -
  let ?c = "zero_Claims\<lparr>Subject := ''alice'', Issuer := ''Duet'', Audience := ''x''\<rparr>"
  have s1: "Split ''HS256.alice|Duet|x.otherSecret:HS256,dalice|Duet|x'' (CHR ''.'')
      = [''HS256'', ''alice|Duet|x'', ''otherSecret:HS256,dalice|Duet|x'']"
    by simp
  have h1: "header_of toy_lib ''HS256'' = Some [(''typ'', ''JWT''), (''alg'', ''HS256'')]"
    by (simp add: header_of_def toy_lib_sel)
  have c1: "claims_of toy_lib ''alice|Duet|x'' = Some ?c"
    by (simp add: claims_of_def toy_lib_sel)
  have a1: "map_of [(''typ'', ''JWT''), (''alg'', ''HS256'')] ''alg'' = Some ''HS256''"
    by simp
  have m1: "DecodeSegment toy_lib ''otherSecret:HS256,dalice|Duet|x''
      \<noteq> Some (hmac_Sum toy_lib SHA256 tokenSecret (''HS256'' @ ''.'' @ ''alice|Duet|x''))"
    by (simp add: toy_lib_sel tokenSecret_def)
  have s2: "Split ''none.alice|Duet|x.'' (CHR ''.'') = [''none'', ''alice|Duet|x'', []]"
    by simp
  have h2: "header_of toy_lib ''none'' = Some [(''typ'', ''JWT''), (''alg'', ''none'')]"
    by (simp add: header_of_def toy_lib_sel)
  have a2: "map_of [(''typ'', ''JWT''), (''alg'', ''none'')] ''alg'' \<noteq> Some ''HS256''"
    by simp
  have s3: "\<forall>a b c. Split ''abc'' (CHR ''.'') \<noteq> [a, b, c]"
    by simp
  have r1: "\<exists>inner errors.
          fst (VerifyToken toy_lib 5 ''HS256.alice|Duet|x.otherSecret:HS256,dalice|Duet|x''
                 :: _ \<times> unit event list)
            = (None, Some (ValidationError inner errors []))
          \<and> errors AND ValidationErrorSignatureInvalid \<noteq> 0"
    using VerifyToken_rejects [where s = "''HS256.alice|Duet|x.otherSecret:HS256,dalice|Duet|x''"
        and ?p0.0 = "''HS256''" and ?p1.0 = "''alice|Duet|x''"
        and ?p2.0 = "''otherSecret:HS256,dalice|Duet|x''" and lib = toy_lib
        and hdr = "[(''typ'', ''JWT''), (''alg'', ''HS256'')]" and c = ?c and now = 5
        and 'k = unit] s1 h1 c1 a1 m1
    by blast
  have r2: "\<exists>inner text.
          fst (VerifyToken toy_lib 5 ''none.alice|Duet|x.'' :: _ \<times> unit event list)
            = (None, Some (ValidationError inner ValidationErrorUnverifiable text))"
    using VerifyToken_rejects [where s = "''none.alice|Duet|x.''"
        and ?p0.0 = "''none''" and ?p1.0 = "''alice|Duet|x''" and ?p2.0 = "[]" and lib = toy_lib
        and hdr = "[(''typ'', ''JWT''), (''alg'', ''none'')]" and c = ?c and now = 5
        and 'k = unit] s2 h2 c1 a2
    by blast
  have r3: "\<exists>inner text.
          fst (VerifyToken toy_lib 5 ''abc'' :: _ \<times> unit event list)
            = (None, Some (ValidationError inner ValidationErrorMalformed text))"
    using VerifyToken_rejects [where s = "''abc''" and lib = toy_lib and now = 5 and 'k = unit] s3
    by blast
  show ?thesis
    using s1 h1 c1 m1 s2 h2 s3 r1 r2 r3 by blast
qed

subsection \<open>Logging in\<close>

lemma ServeLogin_decoded:
  "DecodeJsonPayload r = (\<lparr>Username = u, Password = pw\<rparr>, None) \<Longrightarrow>
     ServeLogin lib DecodeJsonPayload r
       = [Log (''Username: '' @ u @ '', Password: '' @ pw @ [CHR 0x0A]),
          WriteJson [(''token'', fst (SignedString lib
                        (NewWithClaims SigningMethodHS256 (login_claims u)) tokenSecret))]]"
  by (simp add: ServeLogin_def SignedString_HS256 Let_def login_claims_def [symmetric])

text \<open>
  C1 (as the code behaves): user \<open>alice\<close> signs up with the password \<open>pw1\<close> and is stored
  with the hash of that password. A login of \<open>alice\<close> with the password \<open>wrong\<close> is
  answered with a token for the subject \<open>alice\<close>, the very token that the password
  \<open>pw1\<close> gets; a login of \<open>mallory\<close>, who never signed up, gets a token too. No login is
  refused for its credentials: \<open>ServeLogin\<close> reads neither the store nor the password.
\<close>

theorem ServeLogin_ignores_password:
  "fst (CreateUser toy_bcrypt 10 100 store0 ''alice'' ''pw1'')
     = (Some (zero_User\<lparr>User_Id := 1, User_CreatedAt := 100, User_UpdatedAt := 100,
                          User_Username := ''alice'', User_HashedPassword := ''$2a$1wp''\<rparr>), None)
   \<and> ServeLogin lib payload_alice_wrong r
     = [Log (''Username: alice, Password: wrong'' @ [CHR 0x0A]),
        WriteJson [(''token'', fst (SignedString lib
                      (NewWithClaims SigningMethodHS256 (login_claims ''alice'')) tokenSecret))]]
   \<and> ServeLogin lib payload_alice_pw1 r
     = [Log (''Username: alice, Password: pw1'' @ [CHR 0x0A]),
        WriteJson [(''token'', fst (SignedString lib
                      (NewWithClaims SigningMethodHS256 (login_claims ''alice'')) tokenSecret))]]
   \<and> ServeLogin lib payload_mallory r
     = [Log (''Username: mallory, Password: x'' @ [CHR 0x0A]),
        WriteJson [(''token'', fst (SignedString lib
                      (NewWithClaims SigningMethodHS256 (login_claims ''mallory'')) tokenSecret))]]"
proof -
  have signup: "fst (CreateUser toy_bcrypt 10 100 store0 ''alice'' ''pw1'')
     = (Some (zero_User\<lparr>User_Id := 1, User_CreatedAt := 100, User_UpdatedAt := 100,
                          User_Username := ''alice'', User_HashedPassword := ''$2a$1wp''\<rparr>), None)"
    by (simp add: CreateUser_def Create_User_def Let_def store0_def zero_User_def toy_bcrypt_def)
  show ?thesis
    using signup
      ServeLogin_decoded [of payload_alice_wrong r "''alice''" "''wrong''" lib]
      ServeLogin_decoded [of payload_alice_pw1 r "''alice''" "''pw1''" lib]
      ServeLogin_decoded [of payload_mallory r "''mallory''" "''x''" lib]
    by (simp add: payload_alice_wrong_def payload_alice_pw1_def payload_mallory_def)
qed

subsection \<open>The gate in front of the GraphQL handler\<close>

lemma gate_no_bearer:
  "GetBearerToken r = (token, Some e) \<Longrightarrow>
     authGraphqlHandler GetBearerToken AuthUserId UserIdKey now r
       = [http_Error (Error e) StatusUnauthorized]"
  by (simp add: authGraphqlHandler_def)

lemma gate_auth_failed:
  "GetBearerToken r = (token, None) \<Longrightarrow> AuthUserId token = ((userId, Some e), elapsed) \<Longrightarrow>
     authGraphqlHandler GetBearerToken AuthUserId UserIdKey now r
       = [Log (''Error verifying token: '' @ Error e),
          http_Error ''Invalid token'' StatusUnauthorized, cancel]"
  by (simp add: authGraphqlHandler_def)

lemma gate_dispatch:
  "GetBearerToken r = (token, None) \<Longrightarrow> AuthUserId token = ((userId, None), elapsed) \<Longrightarrow>
     authGraphqlHandler GetBearerToken AuthUserId UserIdKey now r
       = [ContextHandler \<lparr>deadline = Some (now + 500 * Millisecond),
                          values_of = [(UserIdKey, userId)]\<rparr> r (now + elapsed),
          cancel]"
  by (simp add: authGraphqlHandler_def WithTimeout_def WithValue_def Background_def)

text \<open>
  C2: for every request, if the bearer token cannot be extracted, or the identity cannot
  be resolved from it, the gate answers with status 401 and does not call the GraphQL
  handler; and whenever the handler is called, both steps have succeeded, the request is
  passed on as it came, and the context holds the resolved user id under the user-id key.
\<close>

theorem gate_rejects_or_attaches_identity:
  "(snd (GetBearerToken r) \<noteq> None \<or> snd (fst (AuthUserId (fst (GetBearerToken r)))) \<noteq> None
      \<longrightarrow> (\<exists>msg. http_Error msg StatusUnauthorized
                    \<in> set (authGraphqlHandler GetBearerToken AuthUserId UserIdKey now r))
        \<and> (\<forall>ctx r' t. ContextHandler ctx r' t
                    \<notin> set (authGraphqlHandler GetBearerToken AuthUserId UserIdKey now r)))
   \<and> (\<forall>ctx r' t. ContextHandler ctx r' t
                    \<in> set (authGraphqlHandler GetBearerToken AuthUserId UserIdKey now r)
      \<longrightarrow> snd (GetBearerToken r) = None
        \<and> snd (fst (AuthUserId (fst (GetBearerToken r)))) = None
        \<and> r' = r
        \<and> Value_of ctx UserIdKey = Some (fst (fst (AuthUserId (fst (GetBearerToken r))))))"
proof -
  obtain token e1 where g: "GetBearerToken r = (token, e1)"
    by (cases "GetBearerToken r")
  obtain userId e2 elapsed where a: "AuthUserId token = ((userId, e2), elapsed)"
    by (cases "AuthUserId token") auto
  show ?thesis
  proof (cases e1)
    case (Some e)
    then show ?thesis
      using g gate_no_bearer [of GetBearerToken r token e AuthUserId UserIdKey now] by simp
  next
    case None
    note g' = g [unfolded None]
    show ?thesis
    proof (cases e2)
      case (Some e)
      then show ?thesis
        using g' a gate_auth_failed [of GetBearerToken r token AuthUserId userId e elapsed UserIdKey now]
        by simp
    next
      case None
      then show ?thesis
        using g' a gate_dispatch [of GetBearerToken r token AuthUserId userId elapsed UserIdKey now]
        by (simp add: Value_of_def)
    qed
  qed
qed

text \<open>
  A request without a bearer token, a request whose token is refused, and a request
  whose token resolves to user 7.
\<close>

theorem gate_rejects_or_attaches_identity_witness:
  "(snd (bearer_missing request0) \<noteq> None
    \<and> authGraphqlHandler bearer_missing auth_fast ''user_id'' 0 request0
        = [http_Error ''Invalid authentication method'' StatusUnauthorized])
   \<and> (snd (fst (auth_refused (fst (bearer_found request0)))) \<noteq> None
    \<and> (\<exists>msg. http_Error msg StatusUnauthorized
                \<in> set (authGraphqlHandler bearer_found auth_refused ''user_id'' 0 request0))
    \<and> (\<forall>ctx r' t. ContextHandler ctx r' t
                \<notin> set (authGraphqlHandler bearer_found auth_refused ''user_id'' 0 request0)))
   \<and> (ContextHandler \<lparr>deadline = Some (500 * Millisecond), values_of = [(''user_id'', 7)]\<rparr>
          request0 (3 * Millisecond)
        \<in> set (authGraphqlHandler bearer_found auth_fast ''user_id'' 0 request0)
    \<and> snd (bearer_found request0) = None
    \<and> snd (fst (auth_fast (fst (bearer_found request0)))) = None
    \<and> Value_of \<lparr>deadline = Some (500 * Millisecond), values_of = [(''user_id'', 7)]\<rparr> ''user_id''
        = Some 7)"
proof -
  let ?ctx = "\<lparr>deadline = Some (500 * Millisecond), values_of = [(''user_id'', 7 :: uint64)]\<rparr>"
  have missing: "snd (bearer_missing request0) \<noteq> None"
    by (simp add: bearer_missing_def)
  have answer: "authGraphqlHandler bearer_missing auth_fast ''user_id'' 0 request0
        = [http_Error ''Invalid authentication method'' StatusUnauthorized]"
    by (simp add: authGraphqlHandler_def bearer_missing_def)
  have refused: "snd (fst (auth_refused (fst (bearer_found request0)))) \<noteq> None"
    by (simp add: auth_refused_def)
  have called: "ContextHandler ?ctx request0 (3 * Millisecond)
        \<in> set (authGraphqlHandler bearer_found auth_fast ''user_id'' 0 request0)"
    by (simp add: authGraphqlHandler_def bearer_found_def auth_fast_def WithTimeout_def
        WithValue_def Background_def)
  have resolved: "fst (fst (auth_fast (fst (bearer_found request0)))) = 7"
    by (simp add: auth_fast_def)
  note rejected = gate_rejects_or_attaches_identity
        [where GetBearerToken = bearer_found and AuthUserId = auth_refused
          and UserIdKey = "''user_id''" and now = 0 and r = request0, THEN conjunct1]
  note attached = gate_rejects_or_attaches_identity
        [where GetBearerToken = bearer_found and AuthUserId = auth_fast
          and UserIdKey = "''user_id''" and now = 0 and r = request0, THEN conjunct2,
         THEN spec, THEN spec, THEN spec, THEN mp, OF called]
  have no_call: "(\<exists>msg. http_Error msg StatusUnauthorized
                \<in> set (authGraphqlHandler bearer_found auth_refused ''user_id'' 0 request0))
    \<and> (\<forall>ctx r' t. ContextHandler ctx r' t
                \<notin> set (authGraphqlHandler bearer_found auth_refused ''user_id'' 0 request0))"
    using rejected refused by blast
  have identity: "snd (bearer_found request0) = None
    \<and> snd (fst (auth_fast (fst (bearer_found request0)))) = None
    \<and> Value_of ?ctx ''user_id'' = Some 7"
    using attached unfolding resolved by blast
  show ?thesis
    using missing answer refused no_call called identity by blast
qed

subsection \<open>The deadline of the gate\<close>

text \<open>
  C9 as stated fails: the token of request \<open>request0\<close> is found, and resolving the identity
  takes one second and succeeds. The context was made at time 0 with a deadline of
  500 ms, so the deadline has passed when the resolution returns; yet the gate calls
  the GraphQL handler, at one second, and writes no error at all.
\<close>

theorem gate_deadline_counterexample:
  "authGraphqlHandler bearer_found auth_slow ''user_id'' 0 request0
     = [ContextHandler \<lparr>deadline = Some (500 * Millisecond), values_of = [(''user_id'', 7)]\<rparr>
          request0 (1000 * Millisecond),
        cancel]
   \<and> 500 * Millisecond < 1000 * Millisecond"
  by (simp add: authGraphqlHandler_def bearer_found_def auth_slow_def WithTimeout_def
      WithValue_def Background_def Millisecond_def)

text \<open>
  C9, amended: once the bearer token is extracted, the gate makes a context whose
  deadline is 500 ms after that moment and resolves the identity outside of it.
  Whatever time the resolution takes, the gate calls the GraphQL handler when it
  succeeds, with that context holding the user id, and answers 401 when it fails; and
  on every request the only status of an error response of the gate is 401: it has no
  timeout error.
\<close>

theorem gate_deadline_not_enforced:
  "(GetBearerToken r = (token, None) \<and> AuthUserId token = ((userId, err), elapsed)
      \<longrightarrow> authGraphqlHandler GetBearerToken AuthUserId UserIdKey now r
          = (case err of
               Some e \<Rightarrow> [Log (''Error verifying token: '' @ Error e),
                          http_Error ''Invalid token'' StatusUnauthorized, cancel]
             | None \<Rightarrow> [ContextHandler \<lparr>deadline = Some (now + 500 * Millisecond),
                                         values_of = [(UserIdKey, userId)]\<rparr> r (now + elapsed),
                        cancel]))
   \<and> (\<forall>msg code. http_Error msg code
                    \<in> set (authGraphqlHandler GetBearerToken AuthUserId UserIdKey now r)
      \<longrightarrow> code = StatusUnauthorized)
   \<and> (\<forall>msg code. rest_Error msg code
                    \<notin> set (authGraphqlHandler GetBearerToken AuthUserId UserIdKey now r))"
proof -
  obtain token' e1 where g: "GetBearerToken r = (token', e1)"
    by (cases "GetBearerToken r")
  obtain userId' e2 elapsed' where a: "AuthUserId token' = ((userId', e2), elapsed')"
    by (cases "AuthUserId token'") auto
  have first: "GetBearerToken r = (token, None) \<and> AuthUserId token = ((userId, err), elapsed)
      \<longrightarrow> authGraphqlHandler GetBearerToken AuthUserId UserIdKey now r
          = (case err of
               Some e \<Rightarrow> [Log (''Error verifying token: '' @ Error e),
                          http_Error ''Invalid token'' StatusUnauthorized, cancel]
             | None \<Rightarrow> [ContextHandler \<lparr>deadline = Some (now + 500 * Millisecond),
                                         values_of = [(UserIdKey, userId)]\<rparr> r (now + elapsed),
                        cancel])"
    using gate_auth_failed [of GetBearerToken r token AuthUserId userId _ elapsed UserIdKey now]
      gate_dispatch [of GetBearerToken r token AuthUserId userId elapsed UserIdKey now]
    by (cases err) simp_all
  have rest: "(\<forall>msg code. http_Error msg code
                    \<in> set (authGraphqlHandler GetBearerToken AuthUserId UserIdKey now r)
      \<longrightarrow> code = StatusUnauthorized)
   \<and> (\<forall>msg code. rest_Error msg code
                    \<notin> set (authGraphqlHandler GetBearerToken AuthUserId UserIdKey now r))"
  proof (cases e1)
    case (Some e)
    then show ?thesis
      using g gate_no_bearer [of GetBearerToken r token' e AuthUserId UserIdKey now] by simp
  next
    case None
    note g' = g [unfolded None]
    show ?thesis
    proof (cases e2)
      case (Some e)
      then show ?thesis
        using g' a
          gate_auth_failed [of GetBearerToken r token' AuthUserId userId' e elapsed' UserIdKey now]
        by simp
    next
      case None
      then show ?thesis
        using g' a
          gate_dispatch [of GetBearerToken r token' AuthUserId userId' elapsed' UserIdKey now]
        by simp
    qed
  qed
  show ?thesis
    using first rest by blast
qed

text \<open>The same request, with the identity resolved in 3 ms, and with the token refused.\<close>

theorem gate_deadline_not_enforced_witness:
  "bearer_found request0 = (''T'', None) \<and> auth_fast ''T'' = ((7, None), 3 * Millisecond)
   \<and> authGraphqlHandler bearer_found auth_fast ''user_id'' 20 request0
     = [ContextHandler \<lparr>deadline = Some (20 + 500 * Millisecond),
                        values_of = [(''user_id'', 7)]\<rparr> request0 (20 + 3 * Millisecond),
        cancel]
   \<and> http_Error ''Invalid token'' StatusUnauthorized
       \<in> set (authGraphqlHandler bearer_found auth_refused ''user_id'' 20 request0)"
proof -
  have g: "bearer_found request0 = (''T'', None)"
    by (simp add: bearer_found_def)
  have a: "auth_fast ''T'' = ((7, None), 3 * Millisecond)"
    by (simp add: auth_fast_def)
  have refused: "http_Error ''Invalid token'' StatusUnauthorized
       \<in> set (authGraphqlHandler bearer_found auth_refused ''user_id'' 20 request0)"
    by (simp add: authGraphqlHandler_def bearer_found_def auth_refused_def)
  show ?thesis
    using gate_deadline_not_enforced
        [where GetBearerToken = bearer_found and AuthUserId = auth_fast and r = request0
          and token = "''T''" and userId = 7 and err = None and elapsed = "3 * Millisecond"
          and UserIdKey = "''user_id''" and now = 20]
      g a refused
    by simp
qed

end
